theory Spec2Isabelle
  imports Complex_Main "HOL-Library.Log_Nat"
begin

section \<open>JavaScript numbers\<close>

text \<open>
  Every number of \<^verbatim>\<open>script.js\<close> is a JavaScript number: a binary64 floating-point number,
  or one of \<open>Infinity\<close>, \<open>-Infinity\<close> and \<open>NaN\<close>. The model keeps the three special values
  beside the finite ones, so that a division by zero and a comparison with \<open>NaN\<close> behave as
  they do in the program. A finite value is a real, and \<open>+\<close>, \<open>-\<close>, \<open>*\<close> and \<open>/\<close> below are the
  exact operations on finite values; the rounding of an exact result to the 64-bit format is
  the function \<open>binary64\<close> that follows them. There is one zero (the sign of a zero only
  shows in \<open>x / 0\<close>, where the zero is read as \<open>+0\<close>; the zero divisors of the code below are
  squares, a canvas width, or are squared right after the division).
\<close>

datatype jsnum = Fin real | PInf | NInf | NaN

instantiation jsnum :: "{plus, minus, uminus, times, inverse, abs, ord}"
begin

fun plus_jsnum :: "jsnum \<Rightarrow> jsnum \<Rightarrow> jsnum" where
  "Fin a + Fin b = Fin (a + b)"
| "NaN + _ = NaN"
| "_ + NaN = NaN"
| "PInf + NInf = NaN"
| "NInf + PInf = NaN"
| "PInf + _ = PInf"
| "_ + PInf = PInf"
| "NInf + _ = NInf"
| "_ + NInf = NInf"

fun uminus_jsnum :: "jsnum \<Rightarrow> jsnum" where
  "- Fin a = Fin (- a)"
| "- PInf = NInf"
| "- NInf = PInf"
| "- NaN = NaN"

definition minus_jsnum :: "jsnum \<Rightarrow> jsnum \<Rightarrow> jsnum" where
  "a - b = a + (- b)" for a b :: jsnum

fun times_jsnum :: "jsnum \<Rightarrow> jsnum \<Rightarrow> jsnum" where
  "Fin a * Fin b = Fin (a * b)"
| "NaN * _ = NaN"
| "_ * NaN = NaN"
| "PInf * Fin b = (if b = 0 then NaN else if 0 < b then PInf else NInf)"
| "NInf * Fin b = (if b = 0 then NaN else if 0 < b then NInf else PInf)"
| "Fin a * PInf = (if a = 0 then NaN else if 0 < a then PInf else NInf)"
| "Fin a * NInf = (if a = 0 then NaN else if 0 < a then NInf else PInf)"
| "PInf * PInf = PInf"
| "PInf * NInf = NInf"
| "NInf * PInf = NInf"
| "NInf * NInf = PInf"

fun divide_jsnum :: "jsnum \<Rightarrow> jsnum \<Rightarrow> jsnum" where
  "divide_jsnum (Fin a) (Fin b) =
     (if b = 0 then (if a = 0 then NaN else if 0 < a then PInf else NInf)
      else Fin (a / b))"
| "divide_jsnum NaN _ = NaN"
| "divide_jsnum _ NaN = NaN"
| "divide_jsnum (Fin a) PInf = Fin 0"
| "divide_jsnum (Fin a) NInf = Fin 0"
| "divide_jsnum PInf (Fin b) = (if 0 \<le> b then PInf else NInf)"
| "divide_jsnum NInf (Fin b) = (if 0 \<le> b then NInf else PInf)"
| "divide_jsnum PInf PInf = NaN"
| "divide_jsnum PInf NInf = NaN"
| "divide_jsnum NInf PInf = NaN"
| "divide_jsnum NInf NInf = NaN"

definition inverse_jsnum :: "jsnum \<Rightarrow> jsnum" where
  "inverse a = divide (Fin 1) a" for a :: jsnum

fun abs_jsnum :: "jsnum \<Rightarrow> jsnum" where
  "\<bar>Fin a\<bar> = Fin \<bar>a\<bar>"
| "\<bar>PInf\<bar> = PInf"
| "\<bar>NInf\<bar> = PInf"
| "\<bar>NaN\<bar> = NaN"

text \<open>A comparison with \<open>NaN\<close> on either side is false.\<close>

fun less_jsnum :: "jsnum \<Rightarrow> jsnum \<Rightarrow> bool" where
  "Fin a < Fin b = (a < b)"
| "NaN < _ = False"
| "_ < NaN = False"
| "_ < NInf = False"
| "NInf < _ = True"
| "PInf < _ = False"
| "_ < PInf = True"

fun less_eq_jsnum :: "jsnum \<Rightarrow> jsnum \<Rightarrow> bool" where
  "Fin a \<le> Fin b = (a \<le> b)"
| "NaN \<le> _ = False"
| "_ \<le> NaN = False"
| "NInf \<le> _ = True"
| "_ \<le> PInf = True"
| "Fin a \<le> NInf = False"
| "PInf \<le> Fin b = False"
| "PInf \<le> NInf = False"

instance ..

end

text \<open>\<^verbatim>\<open>Math.round\<close>: the nearest integer, a tie going up.\<close>

fun Math_round :: "jsnum \<Rightarrow> jsnum" where
  "Math_round (Fin a) = Fin (of_int \<lfloor>a + 1 / 2\<rfloor>)"
| "Math_round v = v"

text \<open>\<^verbatim>\<open>Math.max\<close> of two numbers: \<open>NaN\<close> if either is.\<close>

fun Math_max :: "jsnum \<Rightarrow> jsnum \<Rightarrow> jsnum" where
  "Math_max NaN _ = NaN"
| "Math_max _ NaN = NaN"
| "Math_max a b = (if a < b then b else a)"


subsection \<open>Rounding to the 64-bit format\<close>

text \<open>
  \<open>ilog2 x\<close> is \<open>\<lfloor>log\<^sub>2 x\<rfloor>\<close> for a positive \<open>x\<close>, and \<open>round_half_even\<close> the nearest integer, a tie
  going to the even one.
\<close>

definition ilog2 :: "real \<Rightarrow> int" where
  "ilog2 x = (if 1 \<le> x then bitlen \<lfloor>x\<rfloor> - 1 else - bitlen (\<lceil>1 / x\<rceil> - 1))"

definition round_half_even :: "real \<Rightarrow> int" where
  "round_half_even x =
     (let n = \<lfloor>x\<rfloor>; f = x - of_int n
      in if f < 1 / 2 then n else if 1 / 2 < f then n + 1 else if even n then n else n + 1)"

text \<open>
  The binary64 number nearest to a real, a tie going to the even significand: a multiple of
  \<open>2\<^sup>e\<close> with a significand of at most 53 bits, \<open>e\<close> not below \<open>-1074\<close> (the subnormal numbers), and
  an infinity from \<open>2\<^sup>1\<^sup>0\<^sup>2\<^sup>4\<close> on.
\<close>

definition binary64 :: "real \<Rightarrow> jsnum" where
  "binary64 x =
     (if x = 0 then Fin 0
      else let e = max (ilog2 \<bar>x\<bar> - 52) (- 1074);
               m = round_half_even (\<bar>x\<bar> / power_int 2 e);
               r = of_int m * power_int 2 e
           in if 2 ^ 1024 \<le> r then (if 0 < x then PInf else NInf)
              else Fin (if 0 < x then r else - r))"

text \<open>
  The velocity update takes its branch on a rounded value, so it is given the rounding \<open>rd\<close> of
  its operations: \<open>binary64\<close> is the arithmetic of the program, \<open>exact\<close> is real arithmetic. An
  operation rounds its finite result; a decimal literal \<open>c\<close> of the source is \<open>rd c\<close>. The
  functions that are given no rounding compute with the exact operations.
\<close>

type_synonym rounding = "real \<Rightarrow> jsnum"


definition rnd :: "rounding \<Rightarrow> jsnum \<Rightarrow> jsnum" where
  "rnd rd v = (case v of Fin r \<Rightarrow> rd r | _ \<Rightarrow> v)"

definition fl_add :: "rounding \<Rightarrow> jsnum \<Rightarrow> jsnum \<Rightarrow> jsnum" where
  "fl_add rd a b = rnd rd (a + b)"

definition fl_sub :: "rounding \<Rightarrow> jsnum \<Rightarrow> jsnum \<Rightarrow> jsnum" where
  "fl_sub rd a b = rnd rd (a - b)"

definition fl_mul :: "rounding \<Rightarrow> jsnum \<Rightarrow> jsnum \<Rightarrow> jsnum" where
  "fl_mul rd a b = rnd rd (a * b)"

definition fl_div :: "rounding \<Rightarrow> jsnum \<Rightarrow> jsnum \<Rightarrow> jsnum" where
  "fl_div rd a b = rnd rd (a / b)"

text \<open>\<^verbatim>\<open>Math.PI\<close> is the binary64 number nearest to \<open>\<pi>\<close>.\<close>

definition Math_PI :: real where
  "Math_PI = 884279719003555 / 2 ^ 48"

section \<open>Errors\<close>

text \<open>
  Reading a property of \<open>undefined\<close> (an element of an empty array, a wall that does not
  exist yet) throws a \<open>TypeError\<close>. A function that can throw returns \<open>error + 'a\<close>.
\<close>

datatype error = TypeError

section \<open>Physical dimensions\<close>

definition PHYSICAL_WIDTH_METERS :: real where
  "PHYSICAL_WIDTH_METERS = 5"

text \<open>\<open>cw\<close> is \<^verbatim>\<open>canvas.width\<close>, a non-negative integer.\<close>

definition metersToPixels :: "nat \<Rightarrow> jsnum \<Rightarrow> jsnum" where
  "metersToPixels cw meters = (meters / Fin PHYSICAL_WIDTH_METERS) * Fin (real cw)"

definition pixelsToMeters :: "rounding \<Rightarrow> nat \<Rightarrow> jsnum \<Rightarrow> jsnum" where
  "pixelsToMeters rd cw pixels =
     fl_mul rd (fl_div rd pixels (Fin (real cw))) (Fin PHYSICAL_WIDTH_METERS)"

section \<open>Walls: the class Spline\<close>

text \<open>
  A control point \<^verbatim>\<open>{x, y}\<close>; its coordinates come from the canvas size and from mouse
  positions, which are finite. The fields are named \<open>px\<close> and \<open>py\<close>.
\<close>

record point =
  px :: real
  py :: real

text \<open>
  \<open>splineCoeffs\<close> is \<open>None\<close> for \<^verbatim>\<open>null\<close>; otherwise it holds the function \<^verbatim>\<open>at\<close> of the
  object that \<^verbatim>\<open>numeric.spline(xs, ys)\<close> returned. That library is not part of the
  repository: it is the parameter \<open>ns\<close> of the functions below.
\<close>

record Spline =
  isTop :: bool
  dragging :: bool
  dragPointIndex :: int
  points :: "point list"
  velocityMeasurements :: "jsnum list list"
  splineCoeffs :: "(jsnum \<Rightarrow> jsnum) option"

type_synonym numeric_spline = "real list \<Rightarrow> real list \<Rightarrow> jsnum \<Rightarrow> jsnum"

text \<open>\<^verbatim>\<open>Array.prototype.sort\<close> is stable, as \<open>sort_key\<close> is.\<close>

definition initializeSpline :: "numeric_spline \<Rightarrow> Spline \<Rightarrow> Spline" where
  "initializeSpline ns s =
     (let sorted_points = sort_key px (points s);
          xs = map px sorted_points;
          ys = map py sorted_points
      in s\<lparr>points := sorted_points, splineCoeffs := Some (ns xs ys)\<rparr>)"

text \<open>
  \<^verbatim>\<open>initializePoints\<close> on a canvas \<open>cw\<close> wide and \<open>ch\<close> high, and the constructor, which calls
  it and then clears the spline. The control points are computed in real arithmetic, with the
  sine and \<open>\<pi>\<close> for \<^verbatim>\<open>Math.sin\<close> and \<^verbatim>\<open>Math.PI\<close>.
\<close>

definition initializePoints :: "numeric_spline \<Rightarrow> nat \<Rightarrow> nat \<Rightarrow> Spline \<Rightarrow> Spline" where
  "initializePoints ns cw ch s =
     (let numPoints = 5;
          baseY = (if isTop s then real ch * 0.2 else real ch * 0.8);
          pts = map (\<lambda>i. \<lparr>px = (real cw / real (numPoints - 1)) * real i,
                            py = baseY + sin (real i * pi / 2) * 20\<rparr>) [0..<numPoints]
      in initializeSpline ns (s\<lparr>points := pts, velocityMeasurements := map (\<lambda>p. []) pts\<rparr>))"

definition new_Spline :: "numeric_spline \<Rightarrow> nat \<Rightarrow> nat \<Rightarrow> bool \<Rightarrow> Spline" where
  "new_Spline ns cw ch tp =
     (let s = initializePoints ns cw ch
                \<lparr>isTop = tp, dragging = False, dragPointIndex = - 1, points = [],
                 velocityMeasurements = [], splineCoeffs = None\<rparr>
      in s\<lparr>velocityMeasurements := map (\<lambda>p. []) (points s), splineCoeffs := None\<rparr>)"

text \<open>
  \<^verbatim>\<open>getYAtX\<close> returns the height and the wall, whose spline it may have initialised.
\<close>

definition getYAtX :: "numeric_spline \<Rightarrow> Spline \<Rightarrow> jsnum \<Rightarrow> error + jsnum \<times> Spline" where
  "getYAtX ns s x =
     (let s1 = (if splineCoeffs s = None then initializeSpline ns s else s)
      in case points s1 of
           [] \<Rightarrow> Inl TypeError
         | p0 # _ \<Rightarrow>
             if x \<le> Fin (px p0) then Inr (Fin (py p0), s1)
             else if x \<ge> Fin (px (last (points s1))) then Inr (Fin (py (last (points s1))), s1)
             else (case splineCoeffs s1 of
                     None \<Rightarrow> Inl TypeError
                   | Some coeffs \<Rightarrow> Inr (coeffs x, s1)))"

section \<open>Global state\<close>

text \<open>
  A transition \<^verbatim>\<open>{type, timestamp}\<close>: \<open>etype\<close> is \<open>1\<close> for an entry into supersonic flow and
  \<open>-1\<close> for an entry into subsonic flow; the time is a reading of \<^verbatim>\<open>performance.now()\<close>,
  in milliseconds.
\<close>

record transition =
  etype :: int
  timestamp :: real

text \<open>
  The globals of the script. \<open>shockPoints\<close> is the \<^verbatim>\<open>Map\<close>, as the list of its entries in
  insertion order, each key once. \<open>load_width\<close> is \<^verbatim>\<open>canvas.width\<close> at the moment the
  constant \<^verbatim>\<open>SHOCK_DISTANCE\<close> was computed, before the first \<^verbatim>\<open>resizeCanvas\<close>.
\<close>

record world =
  canvas_width :: nat
  canvas_height :: nat
  load_width :: nat
  topWall :: "Spline option"
  bottomWall :: "Spline option"
  shockPoints :: "(jsnum \<times> transition list) list"
  soundSpeed :: jsnum
  initialVelocity :: jsnum
  timeScale :: jsnum

section \<open>The velocity update\<close>

text \<open>
  \<^verbatim>\<open>calculateVelocity\<close> in the arithmetic \<open>rd\<close>. It reads the globals and may initialise the
  spline of the bottom wall, so it returns the velocity and the world.
\<close>

definition calculateVelocity ::
  "rounding \<Rightarrow> numeric_spline \<Rightarrow> world \<Rightarrow> jsnum \<Rightarrow> jsnum \<Rightarrow> jsnum \<Rightarrow> jsnum \<Rightarrow> jsnum
     \<Rightarrow> error + jsnum \<times> world"
where
  "calculateVelocity rd ns w x1 x2 y1 y2 V1 =
     (case bottomWall w of
        None \<Rightarrow> Inl TypeError
      | Some bw \<Rightarrow>
          (case getYAtX ns bw x2 of
             Inl e \<Rightarrow> Inl e
           | Inr (y_next, bw') \<Rightarrow>
               (let w' = w\<lparr>bottomWall := Some bw'\<rparr>;
                    y2_meters = pixelsToMeters rd (canvas_width w) y2;
                    y2_next_meters = pixelsToMeters rd (canvas_width w) y_next;
                    A1 = fl_mul rd (fl_mul rd y2_meters y2_meters) (Fin Math_PI);
                    A2 = fl_mul rd (fl_mul rd y2_next_meters y2_next_meters) (Fin Math_PI);
                    dA = fl_sub rd A2 A1;
                    dA_A = fl_div rd dA A1;
                    M = fl_div rd V1 (soundSpeed w);
                    one_minus_M1 = fl_sub rd (Fin 1) (fl_mul rd M M)
                in if \<bar>one_minus_M1\<bar> < rd 0.01 then Inr (initialVelocity w, w')
                   else (let dV = fl_div rd (fl_mul rd (- dA_A) V1) one_minus_M1
                         in Inr (fl_add rd V1 (fl_mul rd dV (rd 0.05)), w')))))"

section \<open>Recording velocities at control points\<close>

text \<open>
  The loop of \<^verbatim>\<open>recordVelocity\<close> over the control points from index \<open>i\<close> on, with the
  closest index and distance found so far.
\<close>

fun closestScan :: "jsnum \<Rightarrow> point list \<Rightarrow> nat \<Rightarrow> nat \<Rightarrow> jsnum \<Rightarrow> nat \<times> jsnum" where
  "closestScan x [] i closestIndex closestDist = (closestIndex, closestDist)"
| "closestScan x (p # ps) i closestIndex closestDist =
     (let dist = \<bar>Fin (px p) - x\<bar>
      in if dist < closestDist then closestScan x ps (Suc i) i dist
         else closestScan x ps (Suc i) closestIndex closestDist)"

text \<open>
  \<^verbatim>\<open>this.points[0]\<close> of an empty array and \<^verbatim>\<open>this.velocityMeasurements[closestIndex]\<close>
  beyond the array are \<open>undefined\<close>, and reading \<^verbatim>\<open>.x\<close> or calling \<^verbatim>\<open>.push\<close> on that throws.
\<close>

definition recordVelocity :: "Spline \<Rightarrow> jsnum \<Rightarrow> jsnum \<Rightarrow> error + Spline" where
  "recordVelocity s x velocity =
     (case points s of
        [] \<Rightarrow> Inl TypeError
      | p0 # ps \<Rightarrow>
          (let (closestIndex, closestDist) = closestScan x ps 1 0 \<bar>Fin (px p0) - x\<bar>
           in if closestDist < Fin 50 then
                (if closestIndex < length (velocityMeasurements s) then
                   (let measurements = velocityMeasurements s ! closestIndex;
                        pushed = measurements @ [velocity];
                        kept = (if length pushed > 50 then tl pushed else pushed)
                    in Inr (s\<lparr>velocityMeasurements :=
                               (velocityMeasurements s)[closestIndex := kept]\<rparr>))
                 else Inl TypeError)
              else Inr s))"

text \<open>A sequence of calls of \<^verbatim>\<open>recordVelocity\<close> on one wall, each with a position and a velocity.\<close>

fun recordVelocities :: "Spline \<Rightarrow> (jsnum \<times> jsnum) list \<Rightarrow> error + Spline" where
  "recordVelocities s [] = Inr s"
| "recordVelocities s ((x, velocity) # rest) =
     (case recordVelocity s x velocity of
        Inl e \<Rightarrow> Inl e
      | Inr s' \<Rightarrow> recordVelocities s' rest)"

section \<open>Shock detection\<close>

definition SHOCK_WINDOW :: nat where
  "SHOCK_WINDOW = 100"

definition SHOCK_THRESHOLD :: nat where
  "SHOCK_THRESHOLD = 1"

definition SHOCK_LIFETIME :: real where
  "SHOCK_LIFETIME = 300"

definition SHOCK_DISTANCE :: "world \<Rightarrow> jsnum" where
  "SHOCK_DISTANCE w = metersToPixels (load_width w) (Fin 0.1)"

text \<open>The operations of a \<^verbatim>\<open>Map\<close> on the list of its entries; \<^verbatim>\<open>set\<close> keeps the place of a key.\<close>

definition Map_has :: "'k \<Rightarrow> ('k \<times> 'v) list \<Rightarrow> bool" where
  "Map_has k m = (map_of m k \<noteq> None)"

definition Map_get :: "'k \<Rightarrow> ('k \<times> 'v) list \<Rightarrow> 'v option" where
  "Map_get k m = map_of m k"

fun Map_set :: "'k \<Rightarrow> 'v \<Rightarrow> ('k \<times> 'v) list \<Rightarrow> ('k \<times> 'v) list" where
  "Map_set k v [] = [(k, v)]"
| "Map_set k v ((k', v') # m) = (if k' = k then (k, v) # m else (k', v') # Map_set k v m)"

text \<open>The bucket key of a downstream position: the position rounded to the grouping distance.\<close>

definition roundedX :: "jsnum \<Rightarrow> jsnum \<Rightarrow> jsnum" where
  "roundedX shock_distance x = Math_round (x / shock_distance) * shock_distance"

text \<open>
  The body of the \<^verbatim>\<open>if\<close> of \<^verbatim>\<open>Particle.update\<close> that follows a Mach transition at \<open>x\<close>.
  \<open>t_stamp\<close> and \<open>t_now\<close> are its two readings of \<^verbatim>\<open>performance.now()\<close>.
\<close>

definition recordTransition :: "jsnum \<Rightarrow> jsnum \<Rightarrow> real \<Rightarrow> real \<Rightarrow> world \<Rightarrow> world" where
  "recordTransition x newMach t_stamp t_now w =
     (let key = roundedX (SHOCK_DISTANCE w) x;
          sp = (if \<not> Map_has key (shockPoints w) then Map_set key [] (shockPoints w)
                else shockPoints w);
          transitions = (case Map_get key sp of None \<Rightarrow> [] | Some ts \<Rightarrow> ts);
          pushed = transitions @ [\<lparr>etype = (if newMach \<ge> Fin 1 then 1 else - 1), timestamp = t_stamp\<rparr>];
          now = t_now;
          young = filter (\<lambda>t. now - timestamp t < SHOCK_LIFETIME) pushed;
          updatedTransitions = drop (length young - SHOCK_WINDOW) young
      in w\<lparr>shockPoints := Map_set key updatedTransitions sp\<rparr>)"

text \<open>
  The clean-up loop of \<^verbatim>\<open>animate\<close>: an entry is deleted when its array is empty or its last
  element is \<open>SHOCK_LIFETIME\<close> old. Each key occurs once, so deleting the key deletes the entry.
\<close>

definition cleanupShockPoints :: "real \<Rightarrow> (jsnum \<times> transition list) list \<Rightarrow> (jsnum \<times> transition list) list" where
  "cleanupShockPoints now sp =
     filter (\<lambda>(x, transitions).
        \<not> (length transitions = 0 \<or> now - timestamp (last transitions) \<ge> SHOCK_LIFETIME)) sp"

datatype rgba = RGBA nat nat nat jsnum

text \<open>A stroke of the canvas: the segment from \<open>(at_x, from_y)\<close> to \<open>(at_x, to_y)\<close> and its style.\<close>

record stroke =
  at_x :: jsnum
  from_y :: jsnum
  to_y :: jsnum
  strokeStyle :: rgba

definition superCount :: "transition list \<Rightarrow> nat" where
  "superCount transitions = length (filter (\<lambda>t. etype t = 1) transitions)"

definition subCount :: "transition list \<Rightarrow> nat" where
  "subCount transitions = length (filter (\<lambda>t. etype t = - 1) transitions)"

text \<open>\<^verbatim>\<open>Math.max(...transitions.map(t => t.timestamp))\<close>, which is \<open>-Infinity\<close> of no argument.\<close>

definition latestTime :: "transition list \<Rightarrow> jsnum" where
  "latestTime transitions = foldl Math_max NInf (map (\<lambda>t. Fin (timestamp t)) transitions)"

definition shockStyle :: "real \<Rightarrow> transition list \<Rightarrow> rgba" where
  "shockStyle now transitions =
     (let age = Fin now - latestTime transitions;
          opacity = Math_max (Fin 0) (Fin 1 - (age / Fin SHOCK_LIFETIME))
      in if superCount transitions \<ge> SHOCK_THRESHOLD then RGBA 255 50 50 opacity
         else RGBA 50 50 255 opacity)"

text \<open>The drawing loop of \<^verbatim>\<open>animate\<close> over the entries of the map: the strokes it draws.\<close>

fun drawShocks ::
  "numeric_spline \<Rightarrow> real \<Rightarrow> (jsnum \<times> transition list) list \<Rightarrow> Spline \<Rightarrow> Spline
     \<Rightarrow> error + stroke list \<times> Spline \<times> Spline"
where
  "drawShocks ns now [] tw bw = Inr ([], tw, bw)"
| "drawShocks ns now ((x, transitions) # rest) tw bw =
     (if superCount transitions \<ge> SHOCK_THRESHOLD \<or> subCount transitions \<ge> SHOCK_THRESHOLD then
        (case getYAtX ns tw x of
           Inl e \<Rightarrow> Inl e
         | Inr (topY, tw1) \<Rightarrow>
             (case getYAtX ns bw x of
                Inl e \<Rightarrow> Inl e
              | Inr (bottomY, bw1) \<Rightarrow>
                  (case drawShocks ns now rest tw1 bw1 of
                     Inl e \<Rightarrow> Inl e
                   | Inr (strokes, tw2, bw2) \<Rightarrow>
                       Inr (\<lparr>at_x = x, from_y = topY, to_y = bottomY,
                             strokeStyle = shockStyle now transitions\<rparr> # strokes, tw2, bw2))))
      else drawShocks ns now rest tw bw)"

text \<open>
  The shock part of one frame of \<^verbatim>\<open>animate\<close>, at the reading \<open>now\<close> of the clock: the clean-up,
  then the strokes of the entries that are left.
\<close>

definition animateShocks :: "numeric_spline \<Rightarrow> real \<Rightarrow> world \<Rightarrow> error + stroke list \<times> world" where
  "animateShocks ns now w =
     (let sp = cleanupShockPoints now (shockPoints w)
      in case (topWall w, bottomWall w) of
           (Some tw, Some bw) \<Rightarrow>
             (case drawShocks ns now sp tw bw of
                Inl e \<Rightarrow> Inl e
              | Inr (strokes, tw', bw') \<Rightarrow>
                  Inr (strokes, w\<lparr>shockPoints := sp, topWall := Some tw', bottomWall := Some bw'\<rparr>))
         | _ \<Rightarrow> Inl TypeError)"




section \<open>Particles\<close>

text \<open>
  The fields \<^verbatim>\<open>size\<close>, \<^verbatim>\<open>x\<close> and \<^verbatim>\<open>y\<close> are named \<open>size_p\<close>, \<open>pos_x\<close> and \<open>pos_y\<close>. A property that
  the object does not have yet is \<open>None\<close>: \<^verbatim>\<open>y\<close> before the first update between walls, and
  \<^verbatim>\<open>normalizedY\<close> before the first \<^verbatim>\<open>reset\<close>.
\<close>

record Particle =
  size_p :: jsnum
  pos_x :: jsnum
  pos_y :: "jsnum option"
  normalizedY :: "jsnum option"
  speedX :: jsnum
  opacity :: jsnum
  color :: rgba

text \<open>A property that is \<open>undefined\<close> is \<open>NaN\<close> as a number.\<close>

definition ToNumber :: "jsnum option \<Rightarrow> jsnum" where
  "ToNumber v = (case v of None \<Rightarrow> NaN | Some n \<Rightarrow> n)"

definition updateColor :: "world \<Rightarrow> Particle \<Rightarrow> Particle" where
  "updateColor w p =
     (let localMach = speedX p / soundSpeed w
      in if localMach > Fin 1 then p\<lparr>color := RGBA 255 50 50 (opacity p)\<rparr>
         else p\<lparr>color := RGBA 255 255 255 (opacity p)\<rparr>)"

text \<open>The values of \<^verbatim>\<open>Math.random()\<close> are parameters: reals of \<open>[0, 1)\<close>.\<close>

definition setupVelocity :: "world \<Rightarrow> real \<Rightarrow> Particle \<Rightarrow> Particle" where
  "setupVelocity w random_opacity p =
     updateColor w (p\<lparr>speedX := initialVelocity w,
                       opacity := Fin random_opacity * Fin 0.5 + Fin 0.5\<rparr>)"

definition reset :: "world \<Rightarrow> real \<Rightarrow> real \<Rightarrow> real \<Rightarrow> Particle \<Rightarrow> Particle" where
  "reset w random_size random_y random_opacity p =
     setupVelocity w random_opacity
       (p\<lparr>size_p := Fin random_size * Fin 2 + Fin 1,
          pos_x := Fin 0,
          normalizedY := (if normalizedY p = None then Some (Fin random_y) else normalizedY p)\<rparr>)"

text \<open>\<^verbatim>\<open>initialSpawn\<close> is the other method that assigns \<^verbatim>\<open>normalizedY\<close>; the script never calls it.\<close>

definition initialSpawn :: "world \<Rightarrow> real \<Rightarrow> real \<Rightarrow> real \<Rightarrow> real \<Rightarrow> Particle \<Rightarrow> Particle" where
  "initialSpawn w random_size random_x random_y random_opacity p =
     setupVelocity w random_opacity
       (p\<lparr>size_p := Fin random_size * Fin 2 + Fin 1,
          pos_x := Fin random_x * Fin (real (canvas_width w)),
          normalizedY := Some (Fin random_y)\<rparr>)"

text \<open>The object before its constructor has run: no property is set.\<close>

definition blank_Particle :: Particle where
  "blank_Particle =
     \<lparr>size_p = NaN, pos_x = NaN, pos_y = None, normalizedY = None, speedX = NaN,
      opacity = NaN, color = RGBA 0 0 0 NaN\<rparr>"

definition new_Particle :: "world \<Rightarrow> real \<Rightarrow> real \<Rightarrow> real \<Rightarrow> Particle" where
  "new_Particle w random_size random_y random_opacity =
     reset w random_size random_y random_opacity blank_Particle"

text \<open>
  One tick of a particle. It reads and writes the globals (the walls and the shock map), so it
  returns the particle and the world. \<open>t_stamp\<close> and \<open>t_now\<close> are the two readings of the clock
  that a Mach transition takes. The velocity update is the one of the program, in binary64.
\<close>

definition update :: "numeric_spline \<Rightarrow> real \<Rightarrow> real \<Rightarrow> world \<Rightarrow> Particle \<Rightarrow> error + Particle \<times> world" where
  "update ns t_stamp t_now w p =
     (case (topWall w, bottomWall w) of
        (Some tw, Some bw) \<Rightarrow>
          (let lookAheadMeters = Fin 0.1;
               lookAheadPixels = metersToPixels (canvas_width w) lookAheadMeters
           in case getYAtX ns tw (pos_x p) of
                Inl e \<Rightarrow> Inl e
              | Inr (topY, tw1) \<Rightarrow>
           (case getYAtX ns bw (pos_x p) of
                Inl e \<Rightarrow> Inl e
              | Inr (bottomY, bw1) \<Rightarrow>
           (let w1 = w\<lparr>topWall := Some tw1, bottomWall := Some bw1\<rparr>;
                p1 = p\<lparr>pos_y := Some (topY + (ToNumber (normalizedY p) * (bottomY - topY)))\<rparr>;
                prevMach = speedX p1 / soundSpeed w1
            in case calculateVelocity binary64 ns w1 (pos_x p1) (pos_x p1 + lookAheadPixels)
                      topY bottomY (speedX p1) of
                 Inl e \<Rightarrow> Inl e
               | Inr (v, w2) \<Rightarrow>
           (let p2 = p1\<lparr>speedX := v\<rparr>;
                newMach = speedX p2 / soundSpeed w2;
                w3 = (if (prevMach < Fin 1 \<and> newMach \<ge> Fin 1) \<or> (prevMach \<ge> Fin 1 \<and> newMach < Fin 1)
                      then recordTransition (pos_x p2) newMach t_stamp t_now w2
                      else w2);
                dt = (Fin 1 / Fin 60) * timeScale w3;
                dxMeters = speedX p2 * dt;
                dxPixels = metersToPixels (canvas_width w3) dxMeters
            in case (topWall w3, bottomWall w3) of
                 (Some tw3, Some bw3) \<Rightarrow>
                   (case recordVelocity tw3 (pos_x p2) (speedX p2) of
                      Inl e \<Rightarrow> Inl e
                    | Inr tw4 \<Rightarrow>
                   (case recordVelocity bw3 (pos_x p2) (speedX p2) of
                      Inl e \<Rightarrow> Inl e
                    | Inr bw4 \<Rightarrow>
                   (let w4 = w3\<lparr>topWall := Some tw4, bottomWall := Some bw4\<rparr>;
                        p3 = updateColor w4 p2
                    in Inr (p3\<lparr>pos_x := pos_x p3 + dxPixels\<rparr>, w4))))
               | _ \<Rightarrow> Inl TypeError))))
      | _ \<Rightarrow>
          (let dt = (Fin 1 / Fin 60) * timeScale w;
               dxMeters = speedX p * dt;
               dxPixels = metersToPixels (canvas_width w) dxMeters
           in Inr (p\<lparr>pos_x := pos_x p + dxPixels\<rparr>, w)))"

section \<open>Concrete inputs\<close>

text \<open>
  A stand-in for the spline library, and the state that \<^verbatim>\<open>init\<close> sets up on a canvas \<open>cw\<close> wide
  and 600 high: the two walls as their constructor makes them, no shock yet. The canvas was
  300 wide when the script was loaded.
\<close>

definition constant_spline :: numeric_spline where
  "constant_spline xs ys x = (case ys of [] \<Rightarrow> NaN | y # _ \<Rightarrow> Fin y)"

definition example_wall :: "nat \<Rightarrow> bool \<Rightarrow> Spline" where
  "example_wall cw tp = new_Spline constant_spline cw 600 tp"

definition example_world :: "nat \<Rightarrow> jsnum \<Rightarrow> jsnum \<Rightarrow> world" where
  "example_world cw c v0 =
     \<lparr>canvas_width = cw, canvas_height = 600, load_width = 300,
      topWall = Some (example_wall cw True),
      bottomWall = Some (example_wall cw False),
      shockPoints = [],
      soundSpeed = c, initialVelocity = v0, timeScale = Fin 0.01\<rparr>"

text \<open>
  A bottom wall after its five control points were dragged to the same downstream position:
  every drag ends with \<^verbatim>\<open>initializeSpline\<close>.
\<close>

definition stacked_wall :: Spline where
  "stacked_wall =
     initializeSpline constant_spline
       \<lparr>isTop = False, dragging = False, dragPointIndex = - 1,
        points = [\<lparr>px = 500, py = 400\<rparr>, \<lparr>px = 500, py = 450\<rparr>, \<lparr>px = 500, py = 480\<rparr>,
                  \<lparr>px = 500, py = 460\<rparr>, \<lparr>px = 500, py = 300\<rparr>],
        velocityMeasurements = [[], [], [], [], []],
        splineCoeffs = None\<rparr>"

text \<open>
  The world after three Mach transitions near the inlet, at the times 0, 1 and 2: one into
  supersonic flow, then two into subsonic flow.
\<close>

definition example_shocks :: world where
  "example_shocks =
     recordTransition (Fin 1) (Fin 0.9) 2 2
       (recordTransition (Fin 2) (Fin 0.9) 1 1
          (recordTransition (Fin 1) (Fin 1.1) 0 0
             (example_world 1000 (Fin 343) (Fin 100))))"



section \<open>Facts about rounding\<close>




lemma Math_PI_pos [simp]: "0 < Math_PI"
  by (simp add: Math_PI_def)

lemma Math_PI_neq_0 [simp]: "Math_PI \<noteq> 0"
  by (simp add: Math_PI_def)

lemma ilog2_bounds:
  assumes "0 < x"
  shows "power_int 2 (ilog2 x) \<le> x" and "x < power_int 2 (ilog2 x + 1)"
proof -
  have "power_int 2 (ilog2 x) \<le> x \<and> x < power_int 2 (ilog2 x + 1)"
  proof (cases "1 \<le> x")
    case True
    define n where "n = \<lfloor>x\<rfloor>"
    have n: "0 < n" "of_int n \<le> x" "x < of_int n + 1"
      using True by (auto simp: n_def)
    have b1: "1 \<le> bitlen n"
      using n(1) bitlen_nonneg [of n] bitlen_eq_zero_iff [of n] by linarith
    from bitlen_bounds [OF n(1)] have lo: "2 ^ nat (bitlen n - 1) \<le> n" and hi: "n < 2 ^ nat (bitlen n)"
      by auto
    have "n + 1 \<le> 2 ^ nat (bitlen n)"
      using hi by simp
    then have "(of_int (n + 1) :: real) \<le> of_int (2 ^ nat (bitlen n))"
      by (simp only: of_int_le_iff)
    moreover have "(of_int (n + 1) :: real) = of_int n + 1"
      and "(of_int (2 ^ nat (bitlen n)) :: real) = 2 ^ nat (bitlen n)"
      by simp_all
    ultimately have hi': "x < 2 ^ nat (bitlen n)"
      using n(3) by linarith
    have "(2 :: real) ^ nat (bitlen n - 1) \<le> of_int n"
      using lo by simp
    then have lo': "2 ^ nat (bitlen n - 1) \<le> x"
      using n(2) by linarith
    have "ilog2 x = bitlen n - 1"
      using True by (simp add: ilog2_def n_def)
    then show ?thesis
      using lo' hi' b1 by (simp add: power_int_nonneg_exp nat_add_distrib)
  next
    case False
    define y where "y = 1 / x"
    define c where "c = \<lceil>y\<rceil>"
    have y: "1 < y"
      using False assms by (simp add: y_def)
    have c: "y \<le> of_int c" "of_int c - 1 < y" "2 \<le> c"
      using y by (auto simp: c_def) linarith+
    define b where "b = bitlen (c - 1)"
    have pos: "0 < c - 1"
      using c(3) by simp
    have b1: "1 \<le> b"
      using pos bitlen_nonneg [of "c - 1"] bitlen_eq_zero_iff [of "c - 1"] unfolding b_def by linarith
    from bitlen_bounds [OF pos] have lo: "2 ^ nat (b - 1) \<le> c - 1" and hi: "c - 1 < 2 ^ nat b"
      by (auto simp: b_def)
    have "(of_int (2 ^ nat (b - 1)) :: real) \<le> of_int (c - 1)"
      using lo by (simp only: of_int_le_iff)
    moreover have "(of_int (c - 1) :: real) = of_int c - 1"
      and "(of_int (2 ^ nat (b - 1)) :: real) = 2 ^ nat (b - 1)"
      by simp_all
    ultimately have lo': "2 ^ nat (b - 1) < y"
      using c(2) by linarith
    have "c \<le> 2 ^ nat b"
      using hi by simp
    then have "(of_int c :: real) \<le> 2 ^ nat b"
      by simp
    then have hi': "y \<le> 2 ^ nat b"
      using c(1) by linarith
    have x: "x = 1 / y"
      using assms by (simp add: y_def)
    have "1 / 2 ^ nat b \<le> x"
      unfolding x using hi' y by (simp add: frac_le)
    moreover have "x < 1 / 2 ^ nat (b - 1)"
      unfolding x using lo' by (simp add: frac_less2)
    moreover have "ilog2 x = - b"
      using False by (simp add: ilog2_def b_def c_def y_def)
    moreover have "power_int (2 :: real) (- b) = 1 / 2 ^ nat b"
      using b1 by (simp add: power_int_minus_divide power_int_nonneg_exp)
    moreover have "power_int (2 :: real) (- b + 1) = 1 / 2 ^ nat (b - 1)"
    proof -
      have "power_int (2 :: real) (- b + 1) = power_int 2 (- (b - 1))"
        by simp
      also have "\<dots> = 1 / power_int 2 (b - 1)"
        by (rule power_int_minus_divide)
      also have "power_int (2 :: real) (b - 1) = 2 ^ nat (b - 1)"
        using b1 by (simp add: power_int_nonneg_exp)
      finally show ?thesis .
    qed
    ultimately show ?thesis
      by simp
  qed
  then show "power_int 2 (ilog2 x) \<le> x" and "x < power_int 2 (ilog2 x + 1)"
    by simp_all
qed

lemma pow2_less_D:
  assumes "power_int (2 :: real) a < power_int 2 b"
  shows "a < b"
proof (rule ccontr)
  assume "\<not> a < b"
  then have "power_int (2 :: real) b \<le> power_int 2 a"
    by (intro power_int_increasing) simp_all
  with assms show False
    by simp
qed

lemma ilog2_unique:
  assumes "power_int 2 k \<le> x" and "x < power_int 2 (k + 1)"
  shows "ilog2 x = k"
proof -
  have pos: "0 < x"
    using assms(1) zero_less_power_int [of "2 :: real" k] by linarith
  note b = ilog2_bounds [OF pos]
  have "power_int (2 :: real) k < power_int 2 (ilog2 x + 1)"
    using assms(1) b(2) by linarith
  then have "k < ilog2 x + 1"
    by (rule pow2_less_D)
  moreover have "power_int (2 :: real) (ilog2 x) < power_int 2 (k + 1)"
    using assms(2) b(1) by linarith
  then have "ilog2 x < k + 1"
    by (rule pow2_less_D)
  ultimately show ?thesis
    by simp
qed

lemma round_half_even_unique:
  assumes "\<bar>y - of_int m\<bar> < 1 / 2"
  shows "round_half_even y = m"
proof -
  consider "of_int m \<le> y" | "y < of_int m"
    by linarith
  then show ?thesis
  proof cases
    case 1
    then have "\<lfloor>y\<rfloor> = m"
      using assms by (intro floor_unique; linarith)
    then show ?thesis
      using assms 1 by (simp add: round_half_even_def Let_def)
  next
    case 2
    have "of_int m - 1 \<le> y" "y < of_int m"
      using assms 2 by linarith+
    then have f: "\<lfloor>y\<rfloor> = m - 1"
      by (intro floor_unique) simp_all
    have "\<not> y - of_int (m - 1) < 1 / 2" "1 / 2 < y - of_int (m - 1)"
      using assms 2 by linarith+
    then show ?thesis
      by (simp add: round_half_even_def Let_def f)
  qed
qed

lemma round_half_even_of_int: "round_half_even (of_int m) = m"
  by (rule round_half_even_unique) simp

lemma round_half_even_close: "\<bar>of_int (round_half_even y) - y\<bar> \<le> 1 / 2"
  unfolding round_half_even_def Let_def
  by (auto simp: abs_if) linarith+

lemma round_half_even_le:
  assumes "y < of_int N"
  shows "round_half_even y \<le> N"
proof -
  have "\<lfloor>y\<rfloor> < N"
    using assms by (simp add: floor_less_iff)
  then show ?thesis
    by (simp add: round_half_even_def Let_def)
qed

lemma round_half_even_nonneg:
  assumes "0 \<le> y"
  shows "0 \<le> round_half_even y"
proof -
  have "0 \<le> \<lfloor>y\<rfloor>"
    using assms by simp
  then show ?thesis
    by (simp add: round_half_even_def Let_def)
qed

lemma binary64_pos:
  assumes "0 < x"
  shows "binary64 x =
     (if (2 :: real) ^ 1024 \<le> of_int (round_half_even (x / power_int 2 (max (ilog2 x - 52) (- 1074))))
                       * power_int 2 (max (ilog2 x - 52) (- 1074))
      then PInf
      else Fin (of_int (round_half_even (x / power_int 2 (max (ilog2 x - 52) (- 1074))))
                  * power_int 2 (max (ilog2 x - 52) (- 1074))))"
  using assms unfolding binary64_def Let_def by (simp only: if_True if_False less_irrefl [of 0] abs_of_pos split: if_splits) auto

lemma binary64_minus: "binary64 (- x) = - binary64 x"
  by (simp add: binary64_def Let_def)

lemma round_half_even_tie:
  assumes "even m" and "\<bar>y - of_int m\<bar> = 1 / 2"
  shows "round_half_even y = m"
proof -
  consider "y = of_int m + 1 / 2" | "y = of_int m - 1 / 2"
    using assms(2) by (auto simp: abs_if split: if_splits) 
  then show ?thesis
  proof cases
    case 1
    then have "\<lfloor>y\<rfloor> = m"
      by (intro floor_unique) simp_all
    then show ?thesis
      using assms(1) 1 by (simp add: round_half_even_def Let_def)
  next
    case 2
    then have "\<lfloor>y\<rfloor> = m - 1"
      by (intro floor_unique) simp_all
    then show ?thesis
      using assms(1) 2 by (simp add: round_half_even_def Let_def)
  qed
qed

lemma binary64_eq_round:
  assumes lo: "power_int 2 k \<le> x" and hi: "x < power_int 2 (k + 1)"
    and k: "- 1022 \<le> k" "k \<le> 1022"
    and r: "round_half_even (x / power_int 2 (k - 52)) = m"
  shows "binary64 x = Fin (of_int m * power_int 2 (k - 52))"
proof -
  have pos: "0 < x"
    using lo zero_less_power_int [of "2 :: real" k] by linarith
  have il: "ilog2 x = k"
    using lo hi by (rule ilog2_unique)
  have e: "max (ilog2 x - 52) (- 1074) = k - 52"
    using k by (simp add: il)
  have "x / power_int 2 (k - 52) < power_int 2 (k + 1) / power_int 2 (k - 52)"
    using hi by (simp add: divide_strict_right_mono)
  also have "power_int (2 :: real) (k + 1) / power_int 2 (k - 52) = power_int 2 ((k + 1) - (k - 52))"
    by (rule power_int_diff [symmetric]) simp
  also have "\<dots> = of_int (2 ^ 53)"
    by simp
  finally have "m \<le> 2 ^ 53"
    unfolding r [symmetric] by (rule round_half_even_le)
  then have "(of_int m :: real) \<le> of_int (2 ^ 53)"
    by (simp only: of_int_le_iff)
  then have "(of_int m :: real) \<le> 2 ^ 53"
    by simp
  then have "of_int m * power_int 2 (k - 52) \<le> 2 ^ 53 * power_int (2 :: real) (k - 52)"
    by (simp add: mult_right_mono)
  also have "(2 :: real) ^ 53 * power_int 2 (k - 52) = power_int 2 (53 + (k - 52))"
    by (subst power_int_add) simp_all
  also have "\<dots> \<le> power_int 2 1023"
    using k by (intro power_int_increasing) simp_all
  also have "\<dots> < (2 :: real) ^ 1024"
    by simp
  finally have "\<not> 2 ^ 1024 \<le> of_int m * power_int (2 :: real) (k - 52)"
    by simp
  then show ?thesis
    by (simp add: binary64_pos [OF pos] e r)
qed

text \<open>
  How a rounding is computed: \<open>x\<close>, or \<open>- x\<close>, lies in the binade of \<open>2\<^sup>k\<close> and \<open>m\<close> is the
  nearest multiple of \<open>2\<^sup>k\<^sup>-\<^sup>5\<^sup>2\<close>, or the even one of the two nearest.
\<close>

lemma binary64_eqI:
  assumes "power_int 2 k \<le> x" and "x < power_int 2 (k + 1)"
    and "- 1022 \<le> k" "k \<le> 1022"
    and "\<bar>x / power_int 2 (k - 52) - of_int m\<bar> < 1 / 2"
  shows "binary64 x = Fin (of_int m * power_int 2 (k - 52))"
  using assms(1-4) round_half_even_unique [OF assms(5)] by (rule binary64_eq_round)

lemma binary64_eqI_tie:
  assumes "power_int 2 k \<le> x" and "x < power_int 2 (k + 1)"
    and "- 1022 \<le> k" "k \<le> 1022"
    and "even m" and "\<bar>x / power_int 2 (k - 52) - of_int m\<bar> = 1 / 2"
  shows "binary64 x = Fin (of_int m * power_int 2 (k - 52))"
  using assms(1-4) round_half_even_tie [OF assms(5,6)] by (rule binary64_eq_round)

lemma binary64_neg:
  assumes "binary64 (- x) = Fin r"
  shows "binary64 x = Fin (- r)"
proof -
  have "binary64 (- (- x)) = - Fin r"
    by (simp only: binary64_minus [of "- x"] assms)
  then show ?thesis
    by simp
qed

lemma binary64_eqI_neg:
  assumes "power_int 2 k \<le> - x" and "- x < power_int 2 (k + 1)"
    and "- 1022 \<le> k" "k \<le> 1022"
    and "\<bar>- x / power_int 2 (k - 52) - of_int m\<bar> < 1 / 2"
  shows "binary64 x = Fin (- (of_int m * power_int 2 (k - 52)))"
  using assms by (intro binary64_neg binary64_eqI) simp_all

lemma binary64_idem_pos:
  assumes pos: "0 < x" and b: "binary64 x = Fin s"
  shows "binary64 s = Fin s"
proof -
  define e where "e = max (ilog2 x - 52) (- 1074)"
  define M where "M = round_half_even (x / power_int 2 e)"
  have s: "s = of_int M * power_int 2 e" and fin: "\<not> 2 ^ 1024 \<le> s"
    using b unfolding binary64_pos [OF pos] e_def [symmetric] M_def [symmetric]
    by (auto split: if_splits)
  have e74: "- 1074 \<le> e" and e52: "ilog2 x - 52 \<le> e"
    by (simp_all add: e_def)
  have p2: "0 < power_int (2 :: real) e"
    by simp
  have M0: "0 \<le> M"
    unfolding M_def using pos p2 by (intro round_half_even_nonneg) simp
  have "x < power_int 2 (ilog2 x + 1)"
    using pos by (rule ilog2_bounds)
  also have "\<dots> \<le> power_int 2 (e + 53)"
    using e52 by (intro power_int_increasing) simp_all
  finally have "x / power_int 2 e < power_int 2 (e + 53) / power_int 2 e"
    using p2 by (simp add: divide_strict_right_mono)
  also have "power_int (2 :: real) (e + 53) / power_int 2 e = power_int 2 ((e + 53) - e)"
    by (rule power_int_diff [symmetric]) simp
  also have "\<dots> = of_int (2 ^ 53)"
    by simp
  finally have M53: "M \<le> 2 ^ 53"
    unfolding M_def by (rule round_half_even_le)
  show ?thesis
  proof (cases "M = 0")
    case True
    then show ?thesis
      by (simp add: s binary64_def)
  next
    case False
    with M0 have M1: "1 \<le> M"
      by simp
    then have rM1: "1 \<le> (of_int M :: real)"
      by simp
    have spos: "0 < s"
      unfolding s using rM1 p2 by (intro mult_pos_pos) simp_all
    define e' where "e' = max (ilog2 s - 52) (- 1074)"
    have "\<exists>K :: int. s / power_int 2 e' = of_int K"
    proof (cases "M = 2 ^ 53")
      case True
      then have "s = 2 ^ 53 * power_int 2 e"
        by (simp add: s)
      also have "\<dots> = power_int 2 (53 + e)"
        by (subst power_int_add) simp_all
      finally have s2: "s = power_int 2 (e + 53)"
        by (simp add: add.commute)
      have "power_int (2 :: real) (e + 53) < power_int 2 (e + 53 + 1)"
        by (intro power_int_strict_increasing) simp_all
      then have "ilog2 s = e + 53"
        by (intro ilog2_unique) (simp_all add: s2)
      then have "e' = e + 1"
        using e74 by (simp add: e'_def)
      then have "s / power_int 2 e' = power_int 2 (e + 53) / power_int 2 (e + 1)"
        by (simp only: s2)
      also have "\<dots> = power_int 2 ((e + 53) - (e + 1))"
        by (rule power_int_diff [symmetric]) simp
      also have "\<dots> = of_int (2 ^ 52)"
        by simp
      finally show ?thesis
        by blast
    next
      case False
      with M53 have "M + 1 \<le> 2 ^ 53"
        by simp
      then have "(of_int (M + 1) :: real) \<le> of_int (2 ^ 53)"
        by (simp only: of_int_le_iff)
      then have "(of_int M :: real) < 2 ^ 53"
        by simp
      then have "s < 2 ^ 53 * power_int 2 e"
        unfolding s using p2 by (simp add: mult_strict_right_mono)
      also have "(2 :: real) ^ 53 * power_int 2 e = power_int 2 (53 + e)"
        by (subst power_int_add) simp_all
      finally have "power_int 2 (ilog2 s) < power_int (2 :: real) (53 + e)"
        using ilog2_bounds(1) [OF spos] by linarith
      then have "ilog2 s < 53 + e"
        by (rule pow2_less_D)
      then have le: "e' \<le> e"
        using e74 by (simp add: e'_def)
      have "s / power_int 2 e' = of_int M * (power_int 2 e / power_int 2 e')"
        by (simp add: s)
      also have "power_int (2 :: real) e / power_int 2 e' = power_int 2 (e - e')"
        by (rule power_int_diff [symmetric]) simp
      also have "\<dots> = 2 ^ nat (e - e')"
        using le by (simp add: power_int_nonneg_exp)
      also have "of_int M * (2 :: real) ^ nat (e - e') = of_int (M * 2 ^ nat (e - e'))"
        by simp
      finally show ?thesis
        by blast
    qed
    then obtain K :: int where K: "s / power_int 2 e' = of_int K"
      by blast
    have "of_int (round_half_even (s / power_int 2 e')) * power_int 2 e' = s"
      unfolding K round_half_even_of_int
      using K by (simp add: field_simps)
    then show ?thesis
      using fin by (simp add: binary64_pos [OF spos] e'_def [symmetric])
  qed
qed

lemma binary64_idem:
  assumes "binary64 x = Fin s"
  shows "binary64 s = Fin s"
proof -
  consider "x = 0" | "0 < x" | "x < 0"
    by linarith
  then show ?thesis
  proof cases
    case 1
    then show ?thesis
      using assms by (simp add: binary64_def)
  next
    case 2
    then show ?thesis
      using assms by (rule binary64_idem_pos)
  next
    case 3
    then have "0 < - x"
      by simp
    moreover have "binary64 (- x) = Fin (- s)"
      using assms by (simp add: binary64_minus)
    ultimately have "binary64 (- s) = Fin (- s)"
      by (rule binary64_idem_pos)
    then have "binary64 s = Fin (- (- s))"
      by (rule binary64_neg)
    then show ?thesis
      by simp
  qed
qed

lemma rnd_binary64_idem:
  assumes "rnd binary64 v = Fin s"
  shows "binary64 s = Fin s"
proof -
  from assms obtain r where "v = Fin r"
    by (cases v) (simp_all add: rnd_def)
  with assms have "binary64 r = Fin s"
    by (simp add: rnd_def)
  then show ?thesis
    by (rule binary64_idem)
qed

lemma binary64_close_pos:
  assumes pos: "0 < x" and le: "x \<le> 8"
  shows "\<exists>r. binary64 x = Fin r \<and> \<bar>r - x\<bar> \<le> 1 / 10 ^ 15"
proof -
  define e where "e = max (ilog2 x - 52) (- 1074)"
  define M where "M = round_half_even (x / power_int 2 e)"
  define r :: real where "r = of_int M * power_int 2 e"
  have p2: "0 < power_int (2 :: real) e"
    by simp
  have "power_int 2 (ilog2 x) \<le> x"
    using pos by (rule ilog2_bounds)
  also have "x < power_int 2 4"
    using le by simp
  finally have "ilog2 x < 4"
    by (rule pow2_less_D)
  then have "e \<le> - 49"
    by (simp add: e_def)
  then have "power_int (2 :: real) e \<le> power_int 2 (- 49)"
    by (intro power_int_increasing) simp_all
  then have small: "power_int (2 :: real) e \<le> 1 / 2 ^ 49"
    by (simp add: power_int_minus_divide)
  have "\<bar>of_int M - x / power_int 2 e\<bar> \<le> 1 / 2"
    unfolding M_def by (rule round_half_even_close)
  then have "\<bar>of_int M - x / power_int 2 e\<bar> * power_int 2 e \<le> 1 / 2 * power_int 2 e"
    using p2 by (simp add: mult_right_mono)
  moreover have "\<bar>of_int M - x / power_int 2 e\<bar> * power_int 2 e = \<bar>r - x\<bar>"
  proof -
    have "\<bar>of_int M - x / power_int 2 e\<bar> * power_int 2 e
            = \<bar>(of_int M - x / power_int 2 e) * power_int 2 e\<bar>"
      using p2 by (simp add: abs_mult)
    also have "(of_int M - x / power_int 2 e) * power_int 2 e = r - x"
      using p2 by (simp add: r_def left_diff_distrib)
    finally show ?thesis .
  qed
  ultimately have err: "\<bar>r - x\<bar> \<le> 1 / 2 ^ 50"
    using small by simp
  then have "\<bar>r - x\<bar> \<le> 1"
    by simp
  then have "r \<le> 9"
    using le by linarith
  then have "\<not> (2 :: real) ^ 1024 \<le> r"
    by simp
  then have "binary64 x = Fin r"
    unfolding binary64_pos [OF pos] e_def [symmetric] M_def [symmetric] r_def [symmetric]
    by (simp only: if_False)
  moreover have "\<bar>r - x\<bar> \<le> 1 / 10 ^ 15"
    using err by simp
  ultimately show ?thesis
    by blast
qed

lemma binary64_close:
  assumes "\<bar>x\<bar> \<le> 8"
  shows "\<exists>r. binary64 x = Fin r \<and> \<bar>r - x\<bar> \<le> 1 / 10 ^ 15"
proof -
  consider "x = 0" | "0 < x" | "x < 0"
    by linarith
  then show ?thesis
  proof cases
    case 1
    then show ?thesis
      by (simp add: binary64_def)
  next
    case 2
    then show ?thesis
      using assms by (intro binary64_close_pos) simp_all
  next
    case 3
    then have "0 < - x" "- x \<le> 8"
      using assms by simp_all
    then obtain r where r: "binary64 (- x) = Fin r" "\<bar>r - (- x)\<bar> \<le> 1 / 10 ^ 15"
      using binary64_close_pos by blast
    have "binary64 x = Fin (- r)"
      using r(1) by (rule binary64_neg)
    moreover have "- r - x = - (r - (- x))"
      by simp
    then have "\<bar>- r - x\<bar> = \<bar>r - (- x)\<bar>"
      by (simp only: abs_minus)
    then have "\<bar>- r - x\<bar> \<le> 1 / 10 ^ 15"
      using r(2) by simp
    ultimately show ?thesis
      by blast
  qed
qed

text \<open>The value that the guard of the velocity update tests, for a Mach number of at most 2.\<close>

lemma guard_value_close:
  fixes v c :: real
  assumes c: "c \<noteq> 0" and q: "\<bar>v / c\<bar> \<le> 2"
  shows "\<exists>d. fl_sub binary64 (Fin 1)
                (fl_mul binary64 (fl_div binary64 (Fin v) (Fin c)) (fl_div binary64 (Fin v) (Fin c)))
              = Fin d
            \<and> \<bar>d - (1 - (v / c) * (v / c))\<bar> \<le> 7 / 10 ^ 15"
proof -
  define q where "q = v / c"
  define \<delta> :: real where "\<delta> = 1 / 10 ^ 15"
  have \<delta>: "0 < \<delta>" "\<delta> \<le> 1 / 1000"
    by (simp_all add: \<delta>_def)
  have q2: "\<bar>q\<bar> \<le> 2"
    using q by (simp add: q_def)
  then obtain m where m: "binary64 q = Fin m" "\<bar>m - q\<bar> \<le> \<delta>"
    using binary64_close [of q] unfolding \<delta>_def by auto
  have m2: "\<bar>m\<bar> \<le> 2 + \<delta>"
    using m(2) q2 by (simp add: abs_le_iff)
  have mm: "\<bar>m * m\<bar> \<le> (2 + \<delta>) * (2 + \<delta>)"
    unfolding abs_mult using m2 by (intro mult_mono) simp_all
  also have "\<dots> \<le> 5"
    by (simp add: \<delta>_def)
  finally have mm5: "\<bar>m * m\<bar> \<le> 5" .
  then have "\<bar>m * m\<bar> \<le> 8"
    by simp
  then obtain p where p: "binary64 (m * m) = Fin p" "\<bar>p - m * m\<bar> \<le> \<delta>"
    using binary64_close [of "m * m"] unfolding \<delta>_def by auto
  have "\<bar>m * m - q * q\<bar> = \<bar>m - q\<bar> * \<bar>m + q\<bar>"
    by (simp add: abs_mult [symmetric] algebra_simps)
  also have "\<dots> \<le> \<delta> * (4 + \<delta>)"
    using m(2) m2 q2 by (intro mult_mono) (simp_all add: abs_le_iff)
  also have "\<dots> \<le> 5 * \<delta>"
    by (simp add: \<delta>_def)
  finally have sq: "\<bar>m * m - q * q\<bar> \<le> 5 * \<delta>" .
  have "\<bar>p\<bar> \<le> 6"
    using p(2) mm5 \<delta> by linarith
  then have "\<bar>1 - p\<bar> \<le> 8"
    by (simp add: abs_le_iff)
  then obtain d where d: "binary64 (1 - p) = Fin d" "\<bar>d - (1 - p)\<bar> \<le> \<delta>"
    using binary64_close [of "1 - p"] unfolding \<delta>_def by auto
  have "\<bar>d - (1 - q * q)\<bar> \<le> \<bar>d - (1 - p)\<bar> + \<bar>p - m * m\<bar> + \<bar>m * m - q * q\<bar>"
    by linarith
  also have "\<dots> \<le> 7 * \<delta>"
    using d(2) p(2) sq by linarith
  finally have "\<bar>d - (1 - q * q)\<bar> \<le> 7 / 10 ^ 15"
    by (simp add: \<delta>_def)
  moreover have "fl_sub binary64 (Fin 1)
                (fl_mul binary64 (fl_div binary64 (Fin v) (Fin c)) (fl_div binary64 (Fin v) (Fin c)))
              = Fin d"
    using c by (simp add: fl_sub_def fl_mul_def fl_div_def rnd_def minus_jsnum_def
        q_def [symmetric] m(1) p(1) d(1))
  ultimately show ?thesis
    unfolding q_def by blast
qed

section \<open>Facts about numbers\<close>

lemma fin_le_not_less: "Fin r \<le> a \<Longrightarrow> \<not> a < Fin r"
  by (cases a) auto




section \<open>Facts about walls\<close>

lemma sort_key_eq_Nil: "sort_key f xs = [] \<longleftrightarrow> xs = []"
  by (metis length_sort length_0_conv)

lemma points_initializeSpline: "points (initializeSpline ns s) = sort_key px (points s)"
  by (simp add: initializeSpline_def Let_def)

lemma splineCoeffs_initializeSpline:
  "splineCoeffs (initializeSpline ns s) =
     Some (ns (map px (sort_key px (points s))) (map py (sort_key px (points s))))"
  by (simp add: initializeSpline_def Let_def)

lemma getYAtX_returns:
  assumes "points s \<noteq> []"
  shows "\<exists>h s'. getYAtX ns s x = Inr (h, s')"
proof -
  define s1 where "s1 = (if splineCoeffs s = None then initializeSpline ns s else s)"
  have ne: "points s1 \<noteq> []"
    using assms by (auto simp: s1_def points_initializeSpline sort_key_eq_Nil)
  have co: "splineCoeffs s1 \<noteq> None"
    by (auto simp: s1_def splineCoeffs_initializeSpline)
  from ne obtain p0 ps where ps: "points s1 = p0 # ps"
    by (cases "points s1") auto
  from co obtain coeffs where at: "splineCoeffs s1 = Some coeffs"
    by auto
  show ?thesis
    unfolding getYAtX_def s1_def [symmetric] Let_def
    by (simp add: ps at)
qed

section \<open>Facts about the concrete inputs\<close>

lemma sin_quarter_turns:
  "sin (real 0 * pi / 2) = 0" "sin (real 1 * pi / 2) = 1" "sin (real 2 * pi / 2) = 0"
  "sin (real 3 * pi / 2) = - 1" "sin (real 4 * pi / 2) = 0"
proof -
  show "sin (real 0 * pi / 2) = 0" "sin (real 1 * pi / 2) = 1" "sin (real 2 * pi / 2) = 0"
    "sin (real 4 * pi / 2) = 0"
    by simp_all
  have "sin (real 3 * pi / 2) = sin (3 / 2 * pi)"
    by simp
  then show "sin (real 3 * pi / 2) = - 1"
    by (simp only: sin_3over2_pi)
qed

lemma upt_5: "[0..<5] = [0, 1, 2, 3, 4]"
  by (simp add: upt_conv_Cons)

lemma example_wall_1000:
  "example_wall 1000 tp =
     \<lparr>isTop = tp, dragging = False, dragPointIndex = - 1,
      points = [\<lparr>px = 0, py = (if tp then 120 else 480)\<rparr>,
                \<lparr>px = 250, py = (if tp then 140 else 500)\<rparr>,
                \<lparr>px = 500, py = (if tp then 120 else 480)\<rparr>,
                \<lparr>px = 750, py = (if tp then 100 else 460)\<rparr>,
                \<lparr>px = 1000, py = (if tp then 120 else 480)\<rparr>],
      velocityMeasurements = [[], [], [], [], []],
      splineCoeffs = None\<rparr>"
  using sin_quarter_turns
  by (simp add: example_wall_def new_Spline_def initializePoints_def initializeSpline_def Let_def upt_5)


lemma example_world_fields:
  "canvas_width (example_world cw c v0) = cw"
  "load_width (example_world cw c v0) = 300"
  "topWall (example_world cw c v0) = Some (example_wall cw True)"
  "bottomWall (example_world cw c v0) = Some (example_wall cw False)"
  "shockPoints (example_world cw c v0) = []"
  "soundSpeed (example_world cw c v0) = c"
  "initialVelocity (example_world cw c v0) = v0"
  "timeScale (example_world cw c v0) = Fin 0.01"
  by (simp_all add: example_world_def)

lemma example_inlet:
  "getYAtX constant_spline (example_wall 1000 True) (Fin 0)
     = Inr (Fin 120, initializeSpline constant_spline (example_wall 1000 True))"
  "getYAtX constant_spline (example_wall 1000 False) (Fin 0)
     = Inr (Fin 480, initializeSpline constant_spline (example_wall 1000 False))"
  by (simp_all add: getYAtX_def example_wall_1000 initializeSpline_def Let_def)

lemma example_outlet:
  "getYAtX constant_spline (example_wall 1000 False) (Fin 1000)
     = Inr (Fin 480, initializeSpline constant_spline (example_wall 1000 False))"
  by (simp add: getYAtX_def example_wall_1000 initializeSpline_def Let_def)


section \<open>The velocity update in real arithmetic\<close>



section \<open>Facts about particles\<close>

lemma normalizedY_updateColor: "normalizedY (updateColor w p) = normalizedY p"
  by (simp add: updateColor_def Let_def)

lemma normalizedY_setupVelocity: "normalizedY (setupVelocity w r p) = normalizedY p"
  by (simp add: setupVelocity_def normalizedY_updateColor)

lemma normalizedY_reset:
  "normalizedY (reset w random_size random_y random_opacity p)
     = (if normalizedY p = None then Some (Fin random_y) else normalizedY p)"
  by (simp add: reset_def normalizedY_setupVelocity)

lemma normalizedY_update:
  assumes "update ns t_stamp t_now w p = Inr (p', w')"
  shows "normalizedY p' = normalizedY p"
  using assms
  by (auto simp: update_def Let_def normalizedY_updateColor
      split: option.splits sum.splits prod.splits if_splits)

lemma example_particle:
  "new_Particle (example_world 1000 (Fin 343) (Fin 100)) (1 / 2) (1 / 4) (1 / 2)
     = \<lparr>size_p = Fin 2, pos_x = Fin 0, pos_y = None, normalizedY = Some (Fin (1 / 4)),
        speedX = Fin 100, opacity = Fin (3 / 4), color = RGBA 255 255 255 (Fin (3 / 4))\<rparr>"
  by (simp add: new_Particle_def blank_Particle_def reset_def setupVelocity_def updateColor_def
      example_world_fields Let_def)

lemma calculateVelocity_returns:
  assumes "bottomWall w = Some bw" and "getYAtX ns bw x2 = Inr (y_next, bw')"
  shows "\<exists>v. calculateVelocity rd ns w x1 x2 y1 y2 V1 = Inr (v, w\<lparr>bottomWall := Some bw'\<rparr>)"
  using assms by (simp add: calculateVelocity_def Let_def)

lemma recordTransition_walls:
  "topWall (recordTransition x m T T' w) = topWall w"
  "bottomWall (recordTransition x m T T' w) = bottomWall w"
  "soundSpeed (recordTransition x m T T' w) = soundSpeed w"
  "timeScale (recordTransition x m T T' w) = timeScale w"
  "canvas_width (recordTransition x m T T' w) = canvas_width w"
  by (simp_all add: recordTransition_def Let_def)

lemma example_update:
  "\<exists>p' w'. update constant_spline 0 0 (example_world 1000 (Fin 343) (Fin 100))
       (new_Particle (example_world 1000 (Fin 343) (Fin 100)) (1 / 2) (1 / 4) (1 / 2))
     = Inr (p', w')"
proof -
  define W where "W = example_world 1000 (Fin 343) (Fin 100)"
  define tw1 where "tw1 = initializeSpline constant_spline (example_wall 1000 True)"
  define bw1 where "bw1 = initializeSpline constant_spline (example_wall 1000 False)"
  define W1 where "W1 = W\<lparr>topWall := Some tw1, bottomWall := Some bw1\<rparr>"
  have fields: "topWall W = Some (example_wall 1000 True)"
    "bottomWall W = Some (example_wall 1000 False)" "canvas_width W = 1000"
    "soundSpeed W = Fin 343" "timeScale W = Fin 0.01"
    by (simp_all add: W_def example_world_fields)
  have look: "metersToPixels 1000 (Fin 0.1) = Fin 20"
    by (simp add: metersToPixels_def PHYSICAL_WIDTH_METERS_def)
  have g20: "getYAtX constant_spline bw1 (Fin 20) = Inr (Fin 480, bw1)"
    by (simp add: bw1_def getYAtX_def example_wall_1000 initializeSpline_def Let_def
        constant_spline_def)
  have w1: "topWall W1 = Some tw1" "bottomWall W1 = Some bw1" "soundSpeed W1 = Fin 343"
    "timeScale W1 = Fin 0.01" "canvas_width W1 = 1000"
    by (simp_all add: W1_def fields)
  have same: "W1\<lparr>bottomWall := Some bw1\<rparr> = W1"
    by (simp add: W1_def)
  from calculateVelocity_returns [OF w1(2) g20, of binary64 "Fin 0" "Fin 120" "Fin 480" "Fin 100"]
  obtain v where calc: "calculateVelocity binary64 constant_spline W1 (Fin 0) (Fin 20) (Fin 120)
                          (Fin 480) (Fin 100) = Inr (v, W1)"
    unfolding same by blast
  have pts: "points tw1 = [\<lparr>px = 0, py = 120\<rparr>, \<lparr>px = 250, py = 140\<rparr>, \<lparr>px = 500, py = 120\<rparr>,
                           \<lparr>px = 750, py = 100\<rparr>, \<lparr>px = 1000, py = 120\<rparr>]"
    "points bw1 = [\<lparr>px = 0, py = 480\<rparr>, \<lparr>px = 250, py = 500\<rparr>, \<lparr>px = 500, py = 480\<rparr>,
                   \<lparr>px = 750, py = 460\<rparr>, \<lparr>px = 1000, py = 480\<rparr>]"
    "velocityMeasurements tw1 = [[], [], [], [], []]"
    "velocityMeasurements bw1 = [[], [], [], [], []]"
    by (simp_all add: tw1_def bw1_def example_wall_1000 initializeSpline_def Let_def)
  have rv: "\<exists>s'. recordVelocity tw1 (Fin 0) v = Inr s'"
    "\<exists>s'. recordVelocity bw1 (Fin 0) v = Inr s'"
    by (simp_all add: recordVelocity_def pts minus_jsnum_def)
  then obtain tw4 bw4 where rv': "recordVelocity tw1 (Fin 0) v = Inr tw4"
    "recordVelocity bw1 (Fin 0) v = Inr bw4"
    by blast
  show ?thesis
    unfolding W_def [symmetric] example_particle [folded W_def]
    by (simp add: update_def fields example_inlet tw1_def [symmetric] bw1_def [symmetric]
        W1_def [symmetric] look ToNumber_def minus_jsnum_def calc w1 rv' recordTransition_walls
        Let_def)
qed

lemma update_calls_calculateVelocity:
  assumes "update ns t_stamp t_now w p = Inr (p', w')"
    and "topWall w = Some tw" and "bottomWall w = Some bw"
  shows "\<exists>topY tw1 bottomY bw1 w2.
           getYAtX ns tw (pos_x p) = Inr (topY, tw1)
         \<and> getYAtX ns bw (pos_x p) = Inr (bottomY, bw1)
         \<and> calculateVelocity binary64 ns (w\<lparr>topWall := Some tw1, bottomWall := Some bw1\<rparr>)
              (pos_x p) (pos_x p + metersToPixels (canvas_width w) (Fin 0.1)) topY bottomY (speedX p)
             = Inr (speedX p', w2)"
  using assms
  by (auto simp: update_def Let_def updateColor_def
      split: option.splits sum.splits prod.splits if_splits)

section \<open>The velocity update in binary64\<close>

lemma calculateVelocity_unfold:
  fixes w :: world and y2 y_next V1 :: jsnum and rd :: rounding
  defines "y2_meters \<equiv> pixelsToMeters rd (canvas_width w) y2"
    and "y2_next_meters \<equiv> pixelsToMeters rd (canvas_width w) y_next"
  defines "A1 \<equiv> fl_mul rd (fl_mul rd y2_meters y2_meters) (Fin Math_PI)"
    and "A2 \<equiv> fl_mul rd (fl_mul rd y2_next_meters y2_next_meters) (Fin Math_PI)"
    and "M \<equiv> fl_div rd V1 (soundSpeed w)"
  defines "dA_A \<equiv> fl_div rd (fl_sub rd A2 A1) A1"
    and "D \<equiv> fl_sub rd (Fin 1) (fl_mul rd M M)"
  assumes bw: "bottomWall w = Some bw" and g: "getYAtX ns bw x2 = Inr (y_next, bw')"
  shows "calculateVelocity rd ns w x1 x2 y1 y2 V1 =
           (if \<bar>D\<bar> < rd 0.01 then Inr (initialVelocity w, w\<lparr>bottomWall := Some bw'\<rparr>)
            else Inr (fl_add rd V1 (fl_mul rd (fl_div rd (fl_mul rd (- dA_A) V1) D) (rd 0.05)),
                      w\<lparr>bottomWall := Some bw'\<rparr>))"
  unfolding calculateVelocity_def Let_def assms(1-7)
  by (simp add: bw g)

lemma binary64_1: "binary64 1 = Fin 1"
  using binary64_eqI [of 0 1 "2 ^ 52"] by simp

lemma binary64_threshold: "binary64 (1 / 100) = Fin (5764607523034235 / 576460752303423488)"
  using binary64_eqI [of "- 7" "1 / 100" 5764607523034235]
  by (simp add: power_int_minus_divide)

lemma example_wall_1024:
  "example_wall 1024 tp =
     \<lparr>isTop = tp, dragging = False, dragPointIndex = - 1,
      points = [\<lparr>px = 0, py = (if tp then 120 else 480)\<rparr>,
                \<lparr>px = 256, py = (if tp then 140 else 500)\<rparr>,
                \<lparr>px = 512, py = (if tp then 120 else 480)\<rparr>,
                \<lparr>px = 768, py = (if tp then 100 else 460)\<rparr>,
                \<lparr>px = 1024, py = (if tp then 120 else 480)\<rparr>],
      velocityMeasurements = [[], [], [], [], []],
      splineCoeffs = None\<rparr>"
  using sin_quarter_turns
  by (simp add: example_wall_def new_Spline_def initializePoints_def initializeSpline_def Let_def upt_5)

lemma example_outlet_1024:
  "getYAtX constant_spline (example_wall 1024 False) (Fin 1024)
     = Inr (Fin 480, initializeSpline constant_spline (example_wall 1024 False))"
  by (simp add: getYAtX_def example_wall_1024 initializeSpline_def Let_def)

section \<open>The near-sonic guard\<close>

lemma guard_342:
  "fl_sub binary64 (Fin 1) (fl_mul binary64 (fl_div binary64 (Fin 342) (Fin 343))
                                           (fl_div binary64 (Fin 342) (Fin 343)))
     = Fin (13110888085529 / 2251799813685248)"
proof -
  have gM: "fl_div binary64 (Fin 342) (Fin 343) = Fin (8980939198604721 / 9007199254740992)"
    using binary64_eqI [of "- 1" "342 / 343" 8980939198604721]
    by (simp add: fl_div_def rnd_def)
  have gMM: "fl_mul binary64 (Fin (8980939198604721 / 9007199254740992)) (Fin (8980939198604721 / 9007199254740992)) = Fin (2238688925599719 / 2251799813685248)"
    using binary64_eqI [of "- 1" "80657268889034808269873203487841 / 81129638414606681695789005144064" 8954755702398876]
    by (simp add: fl_mul_def rnd_def)
  have gD: "fl_sub binary64 (Fin 1) (Fin (2238688925599719 / 2251799813685248)) = Fin (13110888085529 / 2251799813685248)"
    using binary64_eqI [of "- 8" "13110888085529 / 2251799813685248" 6712774699790848]
    by (simp add: fl_sub_def rnd_def minus_jsnum_def)
  show ?thesis
    by (simp only: gM gMM gD)
qed

lemma guard_sliver:
  "fl_sub binary64 (Fin 1) (fl_mul binary64 (fl_div binary64 (Fin (6021377412270095 / 17592186044416)) (Fin 344))
                                           (fl_div binary64 (Fin (6021377412270095 / 17592186044416)) (Fin 344)))
     = Fin (45035996273705 / 4503599627370496)"
proof -
  have gM: "fl_div binary64 (Fin (6021377412270095 / 17592186044416)) (Fin 344) = Fin (8962050101983397 / 9007199254740992)"
    using binary64_eqI [of "- 1" "6021377412270095 / 6051711999279104" 8962050101983397]
    by (simp add: fl_div_def rnd_def)
  have gMM: "fl_mul binary64 (Fin (8962050101983397 / 9007199254740992)) (Fin (8962050101983397 / 9007199254740992)) = Fin (4458563631096791 / 4503599627370496)"
    using binary64_eqI [of "- 1" "80318342030460616568313263659609 / 81129638414606681695789005144064" 8917127262193582]
    by (simp add: fl_mul_def rnd_def)
  have gD: "fl_sub binary64 (Fin 1) (Fin (4458563631096791 / 4503599627370496)) = Fin (45035996273705 / 4503599627370496)"
    using binary64_eqI [of "- 7" "45035996273705 / 4503599627370496" 5764607523034240]
    by (simp add: fl_sub_def rnd_def minus_jsnum_def)
  show ?thesis
    by (simp only: gM gMM gD)
qed

lemma near_sonic_sliver:
  "calculateVelocity binary64 constant_spline (example_world 1000 (Fin 344) (Fin 100))
       (Fin 980) (Fin 1000) (Fin 120) (Fin 500) (Fin (6021377412270095 / 17592186044416))
     = Inr (Fin (4190878678939985 / 8796093022208), (example_world 1000 (Fin 344) (Fin 100))
              \<lparr>bottomWall := Some (initializeSpline constant_spline (example_wall 1000 False))\<rparr>)"
proof -
  have b: "bottomWall (example_world 1000 (Fin 344) (Fin 100)) = Some (example_wall 1000 False)"
    by (simp add: example_world_fields)
  have eum1: "fl_div binary64 (Fin 500) (Fin 1000) = Fin (1 / 2)"
    using binary64_eqI [of "- 1" "1 / 2" 4503599627370496]
    by (simp add: fl_div_def rnd_def)
  have eum2: "fl_mul binary64 (Fin (1 / 2)) (Fin 5) = Fin (5 / 2)"
    using binary64_eqI [of "1" "5 / 2" 5629499534213120]
    by (simp add: fl_mul_def rnd_def)
  have eusq: "fl_mul binary64 (Fin (5 / 2)) (Fin (5 / 2)) = Fin (25 / 4)"
    using binary64_eqI [of "2" "25 / 4" 7036874417766400]
    by (simp add: fl_mul_def rnd_def)
  have euA: "fl_mul binary64 (Fin (25 / 4)) (Fin Math_PI) = Fin (5526748243772219 / 281474976710656)"
    using binary64_eqI [of "4" "22106992975088875 / 1125899906842624" 5526748243772219]
    by (simp add: fl_mul_def rnd_def Math_PI_def)
  have edm1: "fl_div binary64 (Fin 480) (Fin 1000) = Fin (1080863910568919 / 2251799813685248)"
    using binary64_eqI [of "- 2" "12 / 25" 8646911284551352]
    by (simp add: fl_div_def rnd_def)
  have edm2: "fl_mul binary64 (Fin (1080863910568919 / 2251799813685248)) (Fin 5) = Fin (5404319552844595 / 2251799813685248)"
    using binary64_eqI [of "1" "5404319552844595 / 2251799813685248" 5404319552844595]
    by (simp add: fl_mul_def rnd_def)
  have edsq: "fl_mul binary64 (Fin (5404319552844595 / 2251799813685248)) (Fin (5404319552844595 / 2251799813685248)) = Fin (3242591731706757 / 562949953421312)"
    using binary64_eqI [of "2" "29206669829258403248756220714025 / 5070602400912917605986812821504" 6485183463413514]
    by (simp add: fl_mul_def rnd_def)
  have edA: "fl_mul binary64 (Fin (3242591731706757 / 562949953421312)) (Fin Math_PI) = Fin (5093451181460477 / 281474976710656)"
    using binary64_eqI [of "4" "2867358105356901883967500521135 / 158456325028528675187087900672" 5093451181460477]
    by (simp add: fl_mul_def rnd_def Math_PI_def)
  have edif: "fl_sub binary64 (Fin (5093451181460477 / 281474976710656)) (Fin (5526748243772219 / 281474976710656)) = Fin (- (216648531155871 / 140737488355328))"
    using binary64_eqI_neg [of "0" "- (216648531155871 / 140737488355328)" 6932752996987872]
    by (simp add: fl_sub_def rnd_def minus_jsnum_def)
  have eq: "fl_div binary64 (Fin (- (216648531155871 / 140737488355328))) (Fin (5526748243772219 / 281474976710656)) = Fin (- (5649315372573551 / 72057594037927936))"
    using binary64_eqI_neg [of "- 4" "- (433297062311742 / 5526748243772219)" 5649315372573551]
    by (simp add: fl_div_def rnd_def)
  have eM: "fl_div binary64 (Fin (6021377412270095 / 17592186044416)) (Fin 344) = Fin (8962050101983397 / 9007199254740992)"
    using binary64_eqI [of "- 1" "6021377412270095 / 6051711999279104" 8962050101983397]
    by (simp add: fl_div_def rnd_def)
  have eMM: "fl_mul binary64 (Fin (8962050101983397 / 9007199254740992)) (Fin (8962050101983397 / 9007199254740992)) = Fin (4458563631096791 / 4503599627370496)"
    using binary64_eqI [of "- 1" "80318342030460616568313263659609 / 81129638414606681695789005144064" 8917127262193582]
    by (simp add: fl_mul_def rnd_def)
  have eD: "fl_sub binary64 (Fin 1) (Fin (4458563631096791 / 4503599627370496)) = Fin (45035996273705 / 4503599627370496)"
    using binary64_eqI [of "- 7" "45035996273705 / 4503599627370496" 5764607523034240]
    by (simp add: fl_sub_def rnd_def minus_jsnum_def)
  have et: "binary64 (1 / 100) = Fin (5764607523034235 / 576460752303423488)"
    using binary64_eqI [of "- 7" "1 / 100" 5764607523034235]
    by (simp add: power_int_minus_divide)
  have en: "fl_mul binary64 (Fin (5649315372573551 / 72057594037927936)) (Fin (6021377412270095 / 17592186044416)) = Fin (944151978243951 / 35184372088832)"
    using binary64_eqI [of "4" "34016659979204596135585265257345 / 1267650600228229401496703205376" 7553215825951608]
    by (simp add: fl_mul_def rnd_def)
  have edV: "fl_div binary64 (Fin (944151978243951 / 35184372088832)) (Fin (45035996273705 / 4503599627370496)) = Fin (5900949864024689 / 2199023255552)"
    using binary64_eqI [of "11" "120851453215225728 / 45035996273705" 5900949864024689]
    by (simp add: fl_div_def rnd_def)
  have eh: "binary64 (1 / 20) = Fin (3602879701896397 / 72057594037927936)"
    using binary64_eqI [of "- 5" "1 / 20" 7205759403792794]
    by (simp add: power_int_minus_divide)
  have es: "fl_mul binary64 (Fin (5900949864024689 / 2199023255552)) (Fin (3602879701896397 / 72057594037927936)) = Fin (4720759891219751 / 35184372088832)"
    using binary64_eqI [of "7" "21260412487002855916200128145533 / 158456325028528675187087900672" 4720759891219751]
    by (simp add: fl_mul_def rnd_def)
  have er: "fl_add binary64 (Fin (6021377412270095 / 17592186044416)) (Fin (4720759891219751 / 35184372088832)) = Fin (4190878678939985 / 8796093022208)"
    using binary64_eqI_tie [of "8" "16763514715759941 / 35184372088832" 8381757357879970]
    by (simp add: fl_add_def rnd_def)
  show ?thesis
    unfolding calculateVelocity_unfold [OF b example_outlet]
    by (simp add: example_world_fields pixelsToMeters_def PHYSICAL_WIDTH_METERS_def
        eum1 eum2 eusq euA edm1 edm2 edsq edA edif eq eM eMM eD et en edV eh es er)
qed

lemma example_areas_1000:
  "fl_mul binary64 (fl_mul binary64 (pixelsToMeters binary64 1000 (Fin 500))
                                   (pixelsToMeters binary64 1000 (Fin 500))) (Fin Math_PI) = Fin (5526748243772219 / 281474976710656)"
  "fl_mul binary64 (fl_mul binary64 (pixelsToMeters binary64 1000 (Fin 480))
                                   (pixelsToMeters binary64 1000 (Fin 480))) (Fin Math_PI) = Fin (5093451181460477 / 281474976710656)"
proof -
  have um1: "fl_div binary64 (Fin 500) (Fin 1000) = Fin (1 / 2)"
    using binary64_eqI [of "- 1" "1 / 2" 4503599627370496]
    by (simp add: fl_div_def rnd_def)
  have um2: "fl_mul binary64 (Fin (1 / 2)) (Fin 5) = Fin (5 / 2)"
    using binary64_eqI [of "1" "5 / 2" 5629499534213120]
    by (simp add: fl_mul_def rnd_def)
  have usq: "fl_mul binary64 (Fin (5 / 2)) (Fin (5 / 2)) = Fin (25 / 4)"
    using binary64_eqI [of "2" "25 / 4" 7036874417766400]
    by (simp add: fl_mul_def rnd_def)
  have uA: "fl_mul binary64 (Fin (25 / 4)) (Fin Math_PI) = Fin (5526748243772219 / 281474976710656)"
    using binary64_eqI [of "4" "22106992975088875 / 1125899906842624" 5526748243772219]
    by (simp add: fl_mul_def rnd_def Math_PI_def)
  have dm1: "fl_div binary64 (Fin 480) (Fin 1000) = Fin (1080863910568919 / 2251799813685248)"
    using binary64_eqI [of "- 2" "12 / 25" 8646911284551352]
    by (simp add: fl_div_def rnd_def)
  have dm2: "fl_mul binary64 (Fin (1080863910568919 / 2251799813685248)) (Fin 5) = Fin (5404319552844595 / 2251799813685248)"
    using binary64_eqI [of "1" "5404319552844595 / 2251799813685248" 5404319552844595]
    by (simp add: fl_mul_def rnd_def)
  have dsq: "fl_mul binary64 (Fin (5404319552844595 / 2251799813685248)) (Fin (5404319552844595 / 2251799813685248)) = Fin (3242591731706757 / 562949953421312)"
    using binary64_eqI [of "2" "29206669829258403248756220714025 / 5070602400912917605986812821504" 6485183463413514]
    by (simp add: fl_mul_def rnd_def)
  have dA: "fl_mul binary64 (Fin (3242591731706757 / 562949953421312)) (Fin Math_PI) = Fin (5093451181460477 / 281474976710656)"
    using binary64_eqI [of "4" "2867358105356901883967500521135 / 158456325028528675187087900672" 5093451181460477]
    by (simp add: fl_mul_def rnd_def Math_PI_def)
  show "fl_mul binary64 (fl_mul binary64 (pixelsToMeters binary64 1000 (Fin 500))
                                   (pixelsToMeters binary64 1000 (Fin 500))) (Fin Math_PI) = Fin (5526748243772219 / 281474976710656)"
    by (simp add: pixelsToMeters_def PHYSICAL_WIDTH_METERS_def um1 um2 usq uA)
  show "fl_mul binary64 (fl_mul binary64 (pixelsToMeters binary64 1000 (Fin 480))
                                   (pixelsToMeters binary64 1000 (Fin 480))) (Fin Math_PI) = Fin (5093451181460477 / 281474976710656)"
    by (simp add: pixelsToMeters_def PHYSICAL_WIDTH_METERS_def dm1 dm2 dsq dA)
qed

lemma near_sonic_outside:
  "calculateVelocity binary64 constant_spline (example_world 1000 (Fin 344) (Fin 100))
       (Fin 980) (Fin 1000) (Fin 120) (Fin 500) (Fin (6081895288759983 / 17592186044416))
     = Inr (Fin 100, (example_world 1000 (Fin 344) (Fin 100))
              \<lparr>bottomWall := Some (initializeSpline constant_spline (example_wall 1000 False))\<rparr>)"
  "fl_div binary64 (fl_sub binary64 (Fin (5093451181460477 / 281474976710656)) (Fin (5526748243772219 / 281474976710656))) (Fin (5526748243772219 / 281474976710656)) = Fin (- (5649315372573551 / 72057594037927936))"
  "fl_sub binary64 (Fin 1) (fl_mul binary64 (fl_div binary64 (Fin (6081895288759983 / 17592186044416)) (Fin 344))
                                           (fl_div binary64 (Fin (6081895288759983 / 17592186044416)) (Fin 344))) = Fin (- (5629499534213 / 562949953421312))"
  "fl_add binary64 (Fin (6081895288759983 / 17592186044416))
     (fl_mul binary64 (fl_div binary64 (fl_mul binary64 (Fin (5649315372573551 / 72057594037927936)) (Fin (6081895288759983 / 17592186044416))) (Fin (- (5629499534213 / 562949953421312)))) (binary64 (1 / 20)))
     = Fin (7395584671132037 / 35184372088832)"
proof -
  have b: "bottomWall (example_world 1000 (Fin 344) (Fin 100)) = Some (example_wall 1000 False)"
    by (simp add: example_world_fields)
  have eum1: "fl_div binary64 (Fin 500) (Fin 1000) = Fin (1 / 2)"
    using binary64_eqI [of "- 1" "1 / 2" 4503599627370496]
    by (simp add: fl_div_def rnd_def)
  have eum2: "fl_mul binary64 (Fin (1 / 2)) (Fin 5) = Fin (5 / 2)"
    using binary64_eqI [of "1" "5 / 2" 5629499534213120]
    by (simp add: fl_mul_def rnd_def)
  have eusq: "fl_mul binary64 (Fin (5 / 2)) (Fin (5 / 2)) = Fin (25 / 4)"
    using binary64_eqI [of "2" "25 / 4" 7036874417766400]
    by (simp add: fl_mul_def rnd_def)
  have euA: "fl_mul binary64 (Fin (25 / 4)) (Fin Math_PI) = Fin (5526748243772219 / 281474976710656)"
    using binary64_eqI [of "4" "22106992975088875 / 1125899906842624" 5526748243772219]
    by (simp add: fl_mul_def rnd_def Math_PI_def)
  have edm1: "fl_div binary64 (Fin 480) (Fin 1000) = Fin (1080863910568919 / 2251799813685248)"
    using binary64_eqI [of "- 2" "12 / 25" 8646911284551352]
    by (simp add: fl_div_def rnd_def)
  have edm2: "fl_mul binary64 (Fin (1080863910568919 / 2251799813685248)) (Fin 5) = Fin (5404319552844595 / 2251799813685248)"
    using binary64_eqI [of "1" "5404319552844595 / 2251799813685248" 5404319552844595]
    by (simp add: fl_mul_def rnd_def)
  have edsq: "fl_mul binary64 (Fin (5404319552844595 / 2251799813685248)) (Fin (5404319552844595 / 2251799813685248)) = Fin (3242591731706757 / 562949953421312)"
    using binary64_eqI [of "2" "29206669829258403248756220714025 / 5070602400912917605986812821504" 6485183463413514]
    by (simp add: fl_mul_def rnd_def)
  have edA: "fl_mul binary64 (Fin (3242591731706757 / 562949953421312)) (Fin Math_PI) = Fin (5093451181460477 / 281474976710656)"
    using binary64_eqI [of "4" "2867358105356901883967500521135 / 158456325028528675187087900672" 5093451181460477]
    by (simp add: fl_mul_def rnd_def Math_PI_def)
  have edif: "fl_sub binary64 (Fin (5093451181460477 / 281474976710656)) (Fin (5526748243772219 / 281474976710656)) = Fin (- (216648531155871 / 140737488355328))"
    using binary64_eqI_neg [of "0" "- (216648531155871 / 140737488355328)" 6932752996987872]
    by (simp add: fl_sub_def rnd_def minus_jsnum_def)
  have eq: "fl_div binary64 (Fin (- (216648531155871 / 140737488355328))) (Fin (5526748243772219 / 281474976710656)) = Fin (- (5649315372573551 / 72057594037927936))"
    using binary64_eqI_neg [of "- 4" "- (433297062311742 / 5526748243772219)" 5649315372573551]
    by (simp add: fl_div_def rnd_def)
  have eM: "fl_div binary64 (Fin (6081895288759983 / 17592186044416)) (Fin 344) = Fin (4526061610239987 / 4503599627370496)"
    using binary64_eqI [of "0" "6081895288759983 / 6051711999279104" 4526061610239987]
    by (simp add: fl_div_def rnd_def)
  have eMM: "fl_mul binary64 (Fin (4526061610239987 / 4503599627370496)) (Fin (4526061610239987 / 4503599627370496)) = Fin (568579452955525 / 562949953421312)"
    using binary64_eqI [of "0" "20485233699688183995255733760169 / 20282409603651670423947251286016" 4548635623644200]
    by (simp add: fl_mul_def rnd_def)
  have eD: "fl_sub binary64 (Fin 1) (Fin (568579452955525 / 562949953421312)) = Fin (- (5629499534213 / 562949953421312))"
    using binary64_eqI_neg [of "- 7" "- (5629499534213 / 562949953421312)" 5764607523034112]
    by (simp add: fl_sub_def rnd_def minus_jsnum_def)
  have et: "binary64 (1 / 100) = Fin (5764607523034235 / 576460752303423488)"
    using binary64_eqI [of "- 7" "1 / 100" 5764607523034235]
    by (simp add: power_int_minus_divide)
  have en: "fl_mul binary64 (Fin (5649315372573551 / 72057594037927936)) (Fin (6081895288759983 / 17592186044416)) = Fin (1907282362555131 / 70368744177664)"
    using binary64_eqI [of "4" "34358544549174427905122253009633 / 1267650600228229401496703205376" 7629129450220524]
    by (simp add: fl_mul_def rnd_def)
  have edV: "fl_div binary64 (Fin (1907282362555131 / 70368744177664)) (Fin (- (5629499534213 / 562949953421312))) = Fin (- (5960257382984911 / 2199023255552))"
    using binary64_eqI_neg [of "11" "- (15258258900441048 / 5629499534213)" 5960257382984911]
    by (simp add: fl_div_def rnd_def)
  have eh: "binary64 (1 / 20) = Fin (3602879701896397 / 72057594037927936)"
    using binary64_eqI [of "- 5" "1 / 20" 7205759403792794]
    by (simp add: power_int_minus_divide)
  have es: "fl_mul binary64 (Fin (- (5960257382984911 / 2199023255552))) (Fin (3602879701896397 / 72057594037927936)) = Fin (- (4768205906387929 / 35184372088832))"
    using binary64_eqI_neg [of "7" "- (21474090343234475468527136265667 / 158456325028528675187087900672)" 4768205906387929]
    by (simp add: fl_mul_def rnd_def)
  have er: "fl_add binary64 (Fin (6081895288759983 / 17592186044416)) (Fin (- (4768205906387929 / 35184372088832))) = Fin (7395584671132037 / 35184372088832)"
    using binary64_eqI [of "7" "7395584671132037 / 35184372088832" 7395584671132037]
    by (simp add: fl_add_def rnd_def)
  show "calculateVelocity binary64 constant_spline (example_world 1000 (Fin 344) (Fin 100))
       (Fin 980) (Fin 1000) (Fin 120) (Fin 500) (Fin (6081895288759983 / 17592186044416))
     = Inr (Fin 100, (example_world 1000 (Fin 344) (Fin 100))
              \<lparr>bottomWall := Some (initializeSpline constant_spline (example_wall 1000 False))\<rparr>)"
    unfolding calculateVelocity_unfold [OF b example_outlet]
    by (simp add: example_world_fields pixelsToMeters_def PHYSICAL_WIDTH_METERS_def
        eum1 eum2 eusq euA edm1 edm2 edsq edA edif eq eM eMM eD et)
  show "fl_div binary64 (fl_sub binary64 (Fin (5093451181460477 / 281474976710656)) (Fin (5526748243772219 / 281474976710656))) (Fin (5526748243772219 / 281474976710656)) = Fin (- (5649315372573551 / 72057594037927936))"
    by (simp only: edif eq)
  show "fl_sub binary64 (Fin 1) (fl_mul binary64 (fl_div binary64 (Fin (6081895288759983 / 17592186044416)) (Fin 344))
                                           (fl_div binary64 (Fin (6081895288759983 / 17592186044416)) (Fin 344))) = Fin (- (5629499534213 / 562949953421312))"
    by (simp only: eM eMM eD)
  show "fl_add binary64 (Fin (6081895288759983 / 17592186044416))
     (fl_mul binary64 (fl_div binary64 (fl_mul binary64 (Fin (5649315372573551 / 72057594037927936)) (Fin (6081895288759983 / 17592186044416))) (Fin (- (5629499534213 / 562949953421312)))) (binary64 (1 / 20)))
     = Fin (7395584671132037 / 35184372088832)"
    by (simp only: en edV eh es er)
qed

lemma guard_100:
  "fl_sub binary64 (Fin 1) (fl_mul binary64 (fl_div binary64 (Fin 100) (Fin 343))
                                           (fl_div binary64 (Fin 100) (Fin 343)))
     = Fin (515099996904783 / 562949953421312)"
  "fl_add binary64 (Fin 100)
     (fl_mul binary64 (fl_div binary64 (fl_mul binary64 (Fin (- 1)) (Fin 100)) (Fin (515099996904783 / 562949953421312))) (binary64 (1 / 20)))
     = Fin (6652346350447707 / 70368744177664)"
proof -
  have hM: "fl_div binary64 (Fin 100) (Fin 343) = Fin (5252011227254223 / 18014398509481984)"
    using binary64_eqI [of "- 2" "100 / 343" 5252011227254223]
    by (simp add: fl_div_def rnd_def)
  have hMM: "fl_mul binary64 (Fin (5252011227254223 / 18014398509481984)) (Fin (5252011227254223 / 18014398509481984)) = Fin (47849956516529 / 562949953421312)"
    using binary64_eqI [of "- 4" "27583621931204409629387871333729 / 324518553658426726783156020576256" 6124794434115712]
    by (simp add: fl_mul_def rnd_def)
  have hD: "fl_sub binary64 (Fin 1) (Fin (47849956516529 / 562949953421312)) = Fin (515099996904783 / 562949953421312)"
    using binary64_eqI [of "- 1" "515099996904783 / 562949953421312" 8241599950476528]
    by (simp add: fl_sub_def rnd_def minus_jsnum_def)
  have ht: "binary64 (1 / 100) = Fin (5764607523034235 / 576460752303423488)"
    using binary64_eqI [of "- 7" "1 / 100" 5764607523034235]
    by (simp add: power_int_minus_divide)
  have hn: "fl_mul binary64 (Fin (- 1)) (Fin 100) = Fin (- 100)"
    using binary64_eqI_neg [of "6" "- 100" 7036874417766400]
    by (simp add: fl_mul_def rnd_def)
  have hdV: "fl_div binary64 (Fin (- 100)) (Fin (515099996904783 / 562949953421312)) = Fin (- (240330042074183 / 2199023255552))"
    using binary64_eqI_neg [of "6" "- (56294995342131200 / 515099996904783)" 7690561346373856]
    by (simp add: fl_div_def rnd_def)
  have hh: "binary64 (1 / 20) = Fin (3602879701896397 / 72057594037927936)"
    using binary64_eqI [of "- 5" "1 / 20" 7205759403792794]
    by (simp add: power_int_minus_divide)
  have hs: "fl_mul binary64 (Fin (- (240330042074183 / 2199023255552))) (Fin (3602879701896397 / 72057594037927936)) = Fin (- (6152449077099085 / 1125899906842624))"
    using binary64_eqI_neg [of "2" "- (865880230344980995584454418651 / 158456325028528675187087900672)" 6152449077099085]
    by (simp add: fl_mul_def rnd_def)
  have hr: "fl_add binary64 (Fin 100) (Fin (- (6152449077099085 / 1125899906842624))) = Fin (6652346350447707 / 70368744177664)"
    using binary64_eqI [of "6" "106437541607163315 / 1125899906842624" 6652346350447707]
    by (simp add: fl_add_def rnd_def)
  show "fl_sub binary64 (Fin 1) (fl_mul binary64 (fl_div binary64 (Fin 100) (Fin 343))
                                           (fl_div binary64 (Fin 100) (Fin 343)))
     = Fin (515099996904783 / 562949953421312)"
    by (simp only: hM hMM hD)
  show "fl_add binary64 (Fin 100)
     (fl_mul binary64 (fl_div binary64 (fl_mul binary64 (Fin (- 1)) (Fin 100)) (Fin (515099996904783 / 562949953421312))) (binary64 (1 / 20)))
     = Fin (6652346350447707 / 70368744177664)"
    by (simp only: hn hdV hh hs hr)
qed

lemma example_areas_1024:
  "fl_mul binary64 (fl_mul binary64 (pixelsToMeters binary64 1024 (Fin (373186621437057 / 1099511627776)))
                                   (pixelsToMeters binary64 1024 (Fin (373186621437057 / 1099511627776)))) (Fin Math_PI) = Fin (4857493573627927 / 562949953421312)"
  "fl_mul binary64 (fl_mul binary64 (pixelsToMeters binary64 1024 (Fin 480))
                                   (pixelsToMeters binary64 1024 (Fin 480))) (Fin Math_PI) = Fin (4857493573627927 / 281474976710656)"
proof -
  have um1: "fl_div binary64 (Fin (373186621437057 / 1099511627776)) (Fin 1024) = Fin (373186621437057 / 1125899906842624)"
    using binary64_eqI [of "- 2" "373186621437057 / 1125899906842624" 5970985942992912]
    by (simp add: fl_div_def rnd_def)
  have um2: "fl_mul binary64 (Fin (373186621437057 / 1125899906842624)) (Fin 5) = Fin (1865933107185285 / 1125899906842624)"
    using binary64_eqI [of "0" "1865933107185285 / 1125899906842624" 7463732428741140]
    by (simp add: fl_mul_def rnd_def)
  have usq: "fl_mul binary64 (Fin (1865933107185285 / 1125899906842624)) (Fin (1865933107185285 / 1125899906842624)) = Fin (5625 / 2048)"
    using binary64_eqI [of "1" "3481706360490132280495320531225 / 1267650600228229401496703205376" 6184752906240000]
    by (simp add: fl_mul_def rnd_def)
  have uA: "fl_mul binary64 (Fin (5625 / 2048)) (Fin Math_PI) = Fin (4857493573627927 / 562949953421312)"
    using binary64_eqI [of "3" "4974073419394996875 / 576460752303423488" 4857493573627927]
    by (simp add: fl_mul_def rnd_def Math_PI_def)
  have dm1: "fl_div binary64 (Fin 480) (Fin 1024) = Fin (15 / 32)"
    using binary64_eqI [of "- 2" "15 / 32" 8444249301319680]
    by (simp add: fl_div_def rnd_def)
  have dm2: "fl_mul binary64 (Fin (15 / 32)) (Fin 5) = Fin (75 / 32)"
    using binary64_eqI [of "1" "75 / 32" 5277655813324800]
    by (simp add: fl_mul_def rnd_def)
  have dsq: "fl_mul binary64 (Fin (75 / 32)) (Fin (75 / 32)) = Fin (5625 / 1024)"
    using binary64_eqI [of "2" "5625 / 1024" 6184752906240000]
    by (simp add: fl_mul_def rnd_def)
  have dA: "fl_mul binary64 (Fin (5625 / 1024)) (Fin Math_PI) = Fin (4857493573627927 / 281474976710656)"
    using binary64_eqI [of "4" "4974073419394996875 / 288230376151711744" 4857493573627927]
    by (simp add: fl_mul_def rnd_def Math_PI_def)
  show "fl_mul binary64 (fl_mul binary64 (pixelsToMeters binary64 1024 (Fin (373186621437057 / 1099511627776)))
                                   (pixelsToMeters binary64 1024 (Fin (373186621437057 / 1099511627776)))) (Fin Math_PI) = Fin (4857493573627927 / 562949953421312)"
    by (simp add: pixelsToMeters_def PHYSICAL_WIDTH_METERS_def um1 um2 usq uA)
  show "fl_mul binary64 (fl_mul binary64 (pixelsToMeters binary64 1024 (Fin 480))
                                   (pixelsToMeters binary64 1024 (Fin 480))) (Fin Math_PI) = Fin (4857493573627927 / 281474976710656)"
    by (simp add: pixelsToMeters_def PHYSICAL_WIDTH_METERS_def dm1 dm2 dsq dA)
qed

lemma example_ratio_1024:
  "fl_div binary64 (fl_sub binary64 (Fin (4857493573627927 / 281474976710656)) (Fin (4857493573627927 / 562949953421312))) (Fin (4857493573627927 / 562949953421312)) = Fin 1"
proof -
  have dif: "fl_sub binary64 (Fin (4857493573627927 / 281474976710656)) (Fin (4857493573627927 / 562949953421312)) = Fin (4857493573627927 / 562949953421312)"
    using binary64_eqI [of "3" "4857493573627927 / 562949953421312" 4857493573627927]
    by (simp add: fl_sub_def rnd_def minus_jsnum_def)
  have q: "fl_div binary64 (Fin (4857493573627927 / 562949953421312)) (Fin (4857493573627927 / 562949953421312)) = Fin 1"
    using binary64_eqI [of "0" "1" 4503599627370496]
    by (simp add: fl_div_def rnd_def)
  show ?thesis
    by (simp only: dif q)
qed

lemma abs_le_2_of_square:
  fixes q :: real
  assumes "q * q \<le> 4"
  shows "\<bar>q\<bar> \<le> 2"
proof -
  have "q\<^sup>2 \<le> 2\<^sup>2"
    using assms by (simp add: power2_eq_square)
  then have "\<bar>q\<bar> \<le> \<bar>2\<bar>"
    by (simp only: abs_le_square_iff)
  then show ?thesis
    by simp
qed

text \<open>
  C4, as amended. The guard tests the value of \<open>1 - M * M\<close> as the program computes it: the
  quotient \<open>M = currentVelocity / soundSpeed\<close>, its square and the difference are each rounded
  to binary64, and \<open>0.01\<close> is the binary64 number nearest to it. Whenever that value is below
  \<open>0.01\<close> in absolute value, the velocity update of a duct whose bottom wall has a control point
  returns exactly the configured injection velocity \<open>initialVelocity\<close>, whatever the two heights
  and so whatever the two areas are. That is the case for every finite velocity and non-zero
  speed of sound with \<open>|1 - (v / c)\<^sup>2| \<le> 0.01 - 10\<^sup>-\<^sup>1\<^sup>4\<close> in real arithmetic. It is not the case
  for every velocity with \<open>|1 - (v / c)\<^sup>2| < 0.01\<close>: in the last \<open>10\<^sup>-\<^sup>1\<^sup>4\<close> of the band the rounded
  value can reach \<open>0.01\<close>, as in the counterexample.
\<close>

theorem calculateVelocity_near_sonic:
  fixes w :: world and V1 :: jsnum
  defines "M \<equiv> fl_div binary64 V1 (soundSpeed w)"
  defines "D \<equiv> fl_sub binary64 (Fin 1) (fl_mul binary64 M M)"
  assumes bw: "bottomWall w = Some bw" and ne: "points bw \<noteq> []"
  shows "(\<bar>D\<bar> < binary64 0.01 \<longrightarrow>
            (\<exists>w'. calculateVelocity binary64 ns w x1 x2 y1 y2 V1 = Inr (initialVelocity w, w')))
       \<and> (\<forall>v c. V1 = Fin v \<and> soundSpeed w = Fin c \<and> c \<noteq> 0
                 \<and> \<bar>1 - (v / c) * (v / c)\<bar> \<le> 0.01 - 1 / 10 ^ 14 \<longrightarrow>
            (\<exists>w'. calculateVelocity binary64 ns w x1 x2 y1 y2 V1 = Inr (initialVelocity w, w')))"
proof -
  from getYAtX_returns [OF ne] obtain h bw' where g: "getYAtX ns bw x2 = Inr (h, bw')"
    by blast
  have guard: "\<exists>w'. calculateVelocity binary64 ns w x1 x2 y1 y2 V1 = Inr (initialVelocity w, w')"
    if "\<bar>D\<bar> < binary64 0.01"
    using that unfolding calculateVelocity_unfold [OF bw g] D_def M_def by simp
  have margin: "\<exists>w'. calculateVelocity binary64 ns w x1 x2 y1 y2 V1 = Inr (initialVelocity w, w')"
    if h: "V1 = Fin v" "soundSpeed w = Fin c" "c \<noteq> 0" "\<bar>1 - (v / c) * (v / c)\<bar> \<le> 0.01 - 1 / 10 ^ 14"
    for v c
  proof -
    have band: "\<bar>1 - (v / c) * (v / c)\<bar> \<le> 999999999999 / 100000000000000"
      using h(4) by simp
    then have "(v / c) * (v / c) \<le> 4"
      by linarith
    then have "\<bar>v / c\<bar> \<le> 2"
      by (rule abs_le_2_of_square)
    from guard_value_close [OF h(3) this] obtain d where
      d: "D = Fin d" "\<bar>d - (1 - (v / c) * (v / c))\<bar> \<le> 7 / 10 ^ 15"
      unfolding D_def M_def h(1,2) by blast
    have "\<bar>d - (1 - (v / c) * (v / c))\<bar> \<le> 7 / 1000000000000000"
      using d(2) by simp
    then have "\<bar>d\<bar> < 1 / 100"
      using band by linarith
    then have "\<bar>D\<bar> < binary64 0.01"
      by (simp add: d(1) binary64_threshold)
    then show ?thesis
      by (rule guard)
  qed
  show ?thesis
    using guard margin by blast
qed

theorem calculateVelocity_near_sonic_witness:
  "bottomWall (example_world 1000 (Fin 343) (Fin 100)) = Some (example_wall 1000 False)
   \<and> points (example_wall 1000 False) \<noteq> []
   \<and> fl_sub binary64 (Fin 1) (fl_mul binary64 (fl_div binary64 (Fin 342) (Fin 343))
                                             (fl_div binary64 (Fin 342) (Fin 343))) = Fin (13110888085529 / 2251799813685248)
   \<and> binary64 0.01 = Fin (5764607523034235 / 576460752303423488)
   \<and> \<bar>Fin (13110888085529 / 2251799813685248)\<bar> < Fin (5764607523034235 / 576460752303423488)
   \<and> \<bar>1 - (342 / 343) * (342 / 343)\<bar> \<le> (0.01 :: real) - 1 / 10 ^ 14
   \<and> (\<exists>w'. calculateVelocity binary64 constant_spline (example_world 1000 (Fin 343) (Fin 100))
              (Fin 980) (Fin 1000) (Fin 120) (Fin 470) (Fin 342) = Inr (Fin 100, w'))"
proof -
  define W where "W = example_world 1000 (Fin 343) (Fin 100)"
  have h1: "bottomWall W = Some (example_wall 1000 False)"
    and c: "soundSpeed W = Fin 343" and v0: "initialVelocity W = Fin 100"
    by (simp_all add: W_def example_world_fields)
  have h2: "points (example_wall 1000 False) \<noteq> []"
    by (simp add: example_wall_1000)
  have t: "binary64 0.01 = Fin (5764607523034235 / 576460752303423488)"
    using binary64_threshold by simp
  have h3: "\<bar>Fin (13110888085529 / 2251799813685248)\<bar> < Fin (5764607523034235 / 576460752303423488)"
    by simp
  have h4: "\<bar>1 - (342 / 343) * (342 / 343)\<bar> \<le> (0.01 :: real) - 1 / 10 ^ 14"
    by simp
  note T = calculateVelocity_near_sonic [OF h1 h2, of "Fin 342" constant_spline "Fin 980" "Fin 1000"
      "Fin 120" "Fin 470"]
  have "\<exists>w'. calculateVelocity binary64 constant_spline W (Fin 980) (Fin 1000) (Fin 120) (Fin 470)
              (Fin 342) = Inr (initialVelocity W, w')"
    using T h3 by (simp add: c guard_342 t)
  moreover have "\<exists>w'. calculateVelocity binary64 constant_spline W (Fin 980) (Fin 1000) (Fin 120) (Fin 470)
              (Fin 342) = Inr (initialVelocity W, w')"
    using T [THEN conjunct2, rule_format, of 342 343] h4 c by simp
  ultimately have "\<exists>w'. calculateVelocity binary64 constant_spline W (Fin 980) (Fin 1000) (Fin 120)
              (Fin 470) (Fin 342) = Inr (Fin 100, w')"
    by (simp add: v0)
  then show ?thesis
    using h1 h2 guard_342 t h3 h4 unfolding W_def by blast
qed

theorem calculateVelocity_near_sonic_counterexample:
  "binary64 342.2756783646773 = Fin (6021377412270095 / 17592186044416)
   \<and> \<bar>1 - (6021377412270095 / 17592186044416) / 344 * ((6021377412270095 / 17592186044416) / 344)\<bar> < (0.01 :: real)
   \<and> fl_sub binary64 (Fin 1) (fl_mul binary64 (fl_div binary64 (Fin (6021377412270095 / 17592186044416)) (Fin 344))
                                             (fl_div binary64 (Fin (6021377412270095 / 17592186044416)) (Fin 344))) = Fin (45035996273705 / 4503599627370496)
   \<and> binary64 0.01 = Fin (5764607523034235 / 576460752303423488)
   \<and> \<not> \<bar>Fin (45035996273705 / 4503599627370496)\<bar> < Fin (5764607523034235 / 576460752303423488)
   \<and> getYAtX constant_spline (example_wall 1000 False) (Fin 1000)
       = Inr (Fin 480, initializeSpline constant_spline (example_wall 1000 False))
   \<and> calculateVelocity binary64 constant_spline (example_world 1000 (Fin 344) (Fin 100))
         (Fin 980) (Fin 1000) (Fin 120) (Fin 500) (Fin (6021377412270095 / 17592186044416))
       = Inr (Fin (4190878678939985 / 8796093022208), (example_world 1000 (Fin 344) (Fin 100))
                \<lparr>bottomWall := Some (initializeSpline constant_spline (example_wall 1000 False))\<rparr>)
   \<and> Fin (4190878678939985 / 8796093022208) \<noteq> initialVelocity (example_world 1000 (Fin 344) (Fin 100))"
proof -
  have lit: "binary64 342.2756783646773 = Fin (6021377412270095 / 17592186044416)"
    using binary64_eqI [of "8" "3422756783646773 / 10000000000000" 6021377412270095] by simp
  have band: "\<bar>1 - (6021377412270095 / 17592186044416) / 344 * ((6021377412270095 / 17592186044416) / 344)\<bar> < (0.01 :: real)"
    by simp
  note tested = guard_sliver
  have t: "binary64 0.01 = Fin (5764607523034235 / 576460752303423488)"
    using binary64_threshold by simp
  have above: "\<not> \<bar>Fin (45035996273705 / 4503599627370496)\<bar> < Fin (5764607523034235 / 576460752303423488)"
    by simp
  have other: "Fin (4190878678939985 / 8796093022208) \<noteq> initialVelocity (example_world 1000 (Fin 344) (Fin 100))"
    by (simp add: example_world_fields)
  show ?thesis
    using lit band tested t above example_outlet near_sonic_sliver other by blast
qed

section \<open>The update formula\<close>

text \<open>
  C3, as amended. Whenever the value of \<open>1 - M * M\<close> that the program computes in binary64, with
  \<open>M = currentVelocity / soundSpeed\<close>, is at least \<open>0.01\<close> in absolute value, the new velocity is
  \<open>currentVelocity + (- dA_A * currentVelocity / (1 - M * M)) * 0.05\<close> with every operation
  rounded to binary64, where \<open>dA_A = (A2 - A1) / A1\<close> and each area is the square of a height of
  the bottom wall, in meters, times \<^verbatim>\<open>Math.PI\<close>: \<open>A1\<close> of the height \<open>y2\<close> that the caller passes,
  \<open>A2\<close> of the height at the position \<open>x2\<close>. That is the case for every finite velocity and
  non-zero speed of sound with a Mach number of at most 2 and \<open>|1 - (v / c)\<^sup>2| \<ge> 0.01 + 10\<^sup>-\<^sup>1\<^sup>4\<close>
  in real arithmetic. In particular, when \<open>A2\<close> is twice a finite non-zero \<open>A1\<close>,
  \<open>currentVelocity = 100\<close> and \<open>soundSpeed = 343\<close>, the result is within \<open>0.1\<close> of \<open>94.5\<close>. The
  caller is the tick of a particle: the speed it ends with is the result of the velocity
  update for \<open>y2\<close> the bottom wall's height at the particle's position and \<open>x2\<close> the position
  10 cm further downstream. The formula does not hold for every velocity with
  \<open>|1 - (v / c)\<^sup>2| \<ge> 0.01\<close>: just outside the band the rounded value can fall below \<open>0.01\<close>, and
  then the guard returns \<open>initialVelocity\<close>, as in the counterexample.
\<close>

theorem calculateVelocity_formula:
  fixes w :: world and y2 y_next V1 :: jsnum
  defines "y2_meters \<equiv> pixelsToMeters binary64 (canvas_width w) y2"
    and "y2_next_meters \<equiv> pixelsToMeters binary64 (canvas_width w) y_next"
  defines "A1 \<equiv> fl_mul binary64 (fl_mul binary64 y2_meters y2_meters) (Fin Math_PI)"
    and "A2 \<equiv> fl_mul binary64 (fl_mul binary64 y2_next_meters y2_next_meters) (Fin Math_PI)"
    and "M \<equiv> fl_div binary64 V1 (soundSpeed w)"
  defines "dA_A \<equiv> fl_div binary64 (fl_sub binary64 A2 A1) A1"
    and "D \<equiv> fl_sub binary64 (Fin 1) (fl_mul binary64 M M)"
  defines "formula \<equiv> fl_add binary64 V1
                       (fl_mul binary64 (fl_div binary64 (fl_mul binary64 (- dA_A) V1) D) (binary64 0.05))"
  assumes bw: "bottomWall w = Some bw" and g: "getYAtX ns bw x2 = Inr (y_next, bw')"
  shows "(binary64 0.01 \<le> \<bar>D\<bar> \<longrightarrow>
            calculateVelocity binary64 ns w x1 x2 y1 y2 V1 = Inr (formula, w\<lparr>bottomWall := Some bw'\<rparr>))
       \<and> (\<forall>v c. V1 = Fin v \<and> soundSpeed w = Fin c \<and> c \<noteq> 0 \<and> \<bar>v / c\<bar> \<le> 2
                 \<and> 0.01 + 1 / 10 ^ 14 \<le> \<bar>1 - (v / c) * (v / c)\<bar> \<longrightarrow>
            calculateVelocity binary64 ns w x1 x2 y1 y2 V1 = Inr (formula, w\<lparr>bottomWall := Some bw'\<rparr>))
       \<and> (V1 = Fin 100 \<and> soundSpeed w = Fin 343 \<and> (\<exists>\<alpha>. \<alpha> \<noteq> 0 \<and> A1 = Fin \<alpha>) \<and> A2 = Fin 2 * A1 \<longrightarrow>
            (\<exists>r. calculateVelocity binary64 ns w x1 x2 y1 y2 V1 = Inr (Fin r, w\<lparr>bottomWall := Some bw'\<rparr>)
                 \<and> \<bar>r - 94.5\<bar> < 0.1))
       \<and> (\<forall>t_stamp t_now wu p p' wu' tw bwu.
            update ns t_stamp t_now wu p = Inr (p', wu') \<and> topWall wu = Some tw
              \<and> bottomWall wu = Some bwu \<longrightarrow>
            (\<exists>topY tw1 bottomY bw1 w2.
                getYAtX ns tw (pos_x p) = Inr (topY, tw1)
              \<and> getYAtX ns bwu (pos_x p) = Inr (bottomY, bw1)
              \<and> calculateVelocity binary64 ns (wu\<lparr>topWall := Some tw1, bottomWall := Some bw1\<rparr>)
                   (pos_x p) (pos_x p + metersToPixels (canvas_width wu) (Fin 0.1))
                   topY bottomY (speedX p)
                  = Inr (speedX p', w2)))"
proof -
  have calc: "calculateVelocity binary64 ns w x1 x2 y1 y2 V1 =
      (if \<bar>D\<bar> < binary64 0.01 then Inr (initialVelocity w, w\<lparr>bottomWall := Some bw'\<rparr>)
       else Inr (formula, w\<lparr>bottomWall := Some bw'\<rparr>))"
    unfolding calculateVelocity_unfold [OF bw g] formula_def D_def M_def dA_A_def A1_def A2_def
      y2_meters_def y2_next_meters_def ..
  have t: "binary64 0.01 = Fin (5764607523034235 / 576460752303423488)"
    using binary64_threshold by simp
  have part1: "calculateVelocity binary64 ns w x1 x2 y1 y2 V1 = Inr (formula, w\<lparr>bottomWall := Some bw'\<rparr>)"
    if "binary64 0.01 \<le> \<bar>D\<bar>"
  proof -
    have "\<not> \<bar>D\<bar> < binary64 0.01"
      using that unfolding t by (rule fin_le_not_less)
    then show ?thesis
      by (simp only: calc if_False)
  qed
  have margin: "calculateVelocity binary64 ns w x1 x2 y1 y2 V1 = Inr (formula, w\<lparr>bottomWall := Some bw'\<rparr>)"
    if h: "V1 = Fin v" "soundSpeed w = Fin c" "c \<noteq> 0" "\<bar>v / c\<bar> \<le> 2"
      "0.01 + 1 / 10 ^ 14 \<le> \<bar>1 - (v / c) * (v / c)\<bar>"
    for v c
  proof -
    from guard_value_close [OF h(3,4)] obtain d where
      d: "D = Fin d" "\<bar>d - (1 - (v / c) * (v / c))\<bar> \<le> 7 / 10 ^ 15"
      unfolding D_def M_def h(1,2) by blast
    have "\<bar>d - (1 - (v / c) * (v / c))\<bar> \<le> 7 / 1000000000000000"
      using d(2) by simp
    moreover have "1000000000001 / 100000000000000 \<le> \<bar>1 - (v / c) * (v / c)\<bar>"
      using h(5) by simp
    ultimately have "5764607523034235 / 576460752303423488 \<le> \<bar>d\<bar>"
      by linarith
    then have "binary64 0.01 \<le> \<bar>D\<bar>"
      by (simp add: d(1) binary64_threshold)
    then show ?thesis
      by (rule part1)
  qed
  have part2: "\<exists>r. calculateVelocity binary64 ns w x1 x2 y1 y2 V1 = Inr (Fin r, w\<lparr>bottomWall := Some bw'\<rparr>)
                 \<and> \<bar>r - 94.5\<bar> < 0.1"
    if h: "V1 = Fin 100" "soundSpeed w = Fin 343" "\<alpha> \<noteq> 0" "A1 = Fin \<alpha>" "A2 = Fin 2 * A1" for \<alpha>
  proof -
    have "rnd binary64 (fl_mul binary64 y2_meters y2_meters * Fin Math_PI) = Fin \<alpha>"
      using h(4) by (simp add: A1_def fl_mul_def)
    then have idem: "binary64 \<alpha> = Fin \<alpha>"
      by (rule rnd_binary64_idem)
    have dA: "fl_sub binary64 A2 A1 = Fin \<alpha>"
      by (simp add: h(4,5) fl_sub_def rnd_def minus_jsnum_def idem)
    have d: "dA_A = Fin 1"
      unfolding dA_A_def dA using h(3) by (simp add: h(4) fl_div_def rnd_def binary64_1)
    have Dv: "D = Fin (515099996904783 / 562949953421312)"
      unfolding D_def M_def h(1,2) by (rule guard_100(1))
    have far: "\<not> \<bar>D\<bar> < binary64 0.01"
      by (simp add: Dv binary64_threshold)
    have "formula = Fin (6652346350447707 / 70368744177664)"
      unfolding formula_def d Dv h(1) by (simp add: guard_100(2))
    then have "calculateVelocity binary64 ns w x1 x2 y1 y2 V1
                 = Inr (Fin (6652346350447707 / 70368744177664), w\<lparr>bottomWall := Some bw'\<rparr>)"
      using far by (simp only: calc if_False)
    moreover have "\<bar>6652346350447707 / 70368744177664 - 94.5\<bar> < (0.1 :: real)"
      by simp
    ultimately show ?thesis
      by blast
  qed
  have part3: "\<exists>topY tw1 bottomY bw1 w2.
                getYAtX ns tw (pos_x p) = Inr (topY, tw1)
              \<and> getYAtX ns bwu (pos_x p) = Inr (bottomY, bw1)
              \<and> calculateVelocity binary64 ns (wu\<lparr>topWall := Some tw1, bottomWall := Some bw1\<rparr>)
                   (pos_x p) (pos_x p + metersToPixels (canvas_width wu) (Fin 0.1))
                   topY bottomY (speedX p)
                  = Inr (speedX p', w2)"
    if "update ns t_stamp t_now wu p = Inr (p', wu') \<and> topWall wu = Some tw
              \<and> bottomWall wu = Some bwu"
    for t_stamp t_now wu p p' wu' tw bwu
    using that update_calls_calculateVelocity [of ns t_stamp t_now wu p p' wu' tw bwu] by blast
  show ?thesis
  proof (intro conjI allI impI)
    show "calculateVelocity binary64 ns w x1 x2 y1 y2 V1 = Inr (formula, w\<lparr>bottomWall := Some bw'\<rparr>)"
      if "binary64 0.01 \<le> \<bar>D\<bar>"
      using that by (rule part1)
    show "calculateVelocity binary64 ns w x1 x2 y1 y2 V1 = Inr (formula, w\<lparr>bottomWall := Some bw'\<rparr>)"
      if "V1 = Fin v \<and> soundSpeed w = Fin c \<and> c \<noteq> 0 \<and> \<bar>v / c\<bar> \<le> 2
                 \<and> 0.01 + 1 / 10 ^ 14 \<le> \<bar>1 - (v / c) * (v / c)\<bar>" for v c
      using that margin by blast
    show "\<exists>r. calculateVelocity binary64 ns w x1 x2 y1 y2 V1 = Inr (Fin r, w\<lparr>bottomWall := Some bw'\<rparr>)
                 \<and> \<bar>r - 94.5\<bar> < 0.1"
      if "V1 = Fin 100 \<and> soundSpeed w = Fin 343 \<and> (\<exists>\<alpha>. \<alpha> \<noteq> 0 \<and> A1 = Fin \<alpha>) \<and> A2 = Fin 2 * A1"
      using that part2 by blast
    show "\<exists>topY tw1 bottomY bw1 w2.
                getYAtX ns tw (pos_x p) = Inr (topY, tw1)
              \<and> getYAtX ns bwu (pos_x p) = Inr (bottomY, bw1)
              \<and> calculateVelocity binary64 ns (wu\<lparr>topWall := Some tw1, bottomWall := Some bw1\<rparr>)
                   (pos_x p) (pos_x p + metersToPixels (canvas_width wu) (Fin 0.1))
                   topY bottomY (speedX p)
                  = Inr (speedX p', w2)"
      if "update ns t_stamp t_now wu p = Inr (p', wu') \<and> topWall wu = Some tw
              \<and> bottomWall wu = Some bwu"
      for t_stamp t_now wu p p' wu' tw bwu
      using that by (rule part3)
  qed
qed

theorem calculateVelocity_formula_witness:
  "bottomWall (example_world 1024 (Fin 343) (Fin 100)) = Some (example_wall 1024 False)
   \<and> getYAtX constant_spline (example_wall 1024 False) (Fin 1024)
     = Inr (Fin 480, initializeSpline constant_spline (example_wall 1024 False))
   \<and> fl_sub binary64 (Fin 1) (fl_mul binary64 (fl_div binary64 (Fin 100) (Fin 343))
                                             (fl_div binary64 (Fin 100) (Fin 343))) = Fin (515099996904783 / 562949953421312)
   \<and> binary64 0.01 \<le> \<bar>Fin (515099996904783 / 562949953421312)\<bar>
   \<and> \<bar>(100 :: real) / 343\<bar> \<le> 2
   \<and> (0.01 :: real) + 1 / 10 ^ 14 \<le> \<bar>1 - (100 / 343) * (100 / 343)\<bar>
   \<and> fl_mul binary64 (fl_mul binary64 (pixelsToMeters binary64 1024 (Fin (373186621437057 / 1099511627776)))
                                       (pixelsToMeters binary64 1024 (Fin (373186621437057 / 1099511627776)))) (Fin Math_PI) = Fin (4857493573627927 / 562949953421312)
   \<and> fl_mul binary64 (fl_mul binary64 (pixelsToMeters binary64 1024 (Fin 480))
                                       (pixelsToMeters binary64 1024 (Fin 480))) (Fin Math_PI)
       = Fin 2 * Fin (4857493573627927 / 562949953421312)
   \<and> calculateVelocity binary64 constant_spline (example_world 1024 (Fin 343) (Fin 100))
         (Fin 1004) (Fin 1024) (Fin 120) (Fin (373186621437057 / 1099511627776)) (Fin 100)
       = Inr (Fin (6652346350447707 / 70368744177664), (example_world 1024 (Fin 343) (Fin 100))
                \<lparr>bottomWall := Some (initializeSpline constant_spline (example_wall 1024 False))\<rparr>)
   \<and> (\<exists>r. calculateVelocity binary64 constant_spline (example_world 1024 (Fin 343) (Fin 100))
              (Fin 1004) (Fin 1024) (Fin 120) (Fin (373186621437057 / 1099511627776)) (Fin 100)
            = Inr (Fin r, (example_world 1024 (Fin 343) (Fin 100))
                     \<lparr>bottomWall := Some (initializeSpline constant_spline (example_wall 1024 False))\<rparr>)
          \<and> \<bar>r - 94.5\<bar> < 0.1)
   \<and> (\<exists>p' wu' topY tw1 bottomY bw1 w2.
         update constant_spline 0 0 (example_world 1000 (Fin 343) (Fin 100))
           (new_Particle (example_world 1000 (Fin 343) (Fin 100)) (1 / 2) (1 / 4) (1 / 2))
          = Inr (p', wu')
       \<and> getYAtX constant_spline (example_wall 1000 False) (Fin 0) = Inr (bottomY, bw1)
       \<and> calculateVelocity binary64 constant_spline
            ((example_world 1000 (Fin 343) (Fin 100))\<lparr>topWall := Some tw1, bottomWall := Some bw1\<rparr>)
            (Fin 0) (Fin 0 + metersToPixels 1000 (Fin 0.1)) topY bottomY (Fin 100)
          = Inr (speedX p', w2))"
proof -
  define W where "W = example_world 1024 (Fin 343) (Fin 100)"
  define B where "B = example_wall 1024 False"
  define W' where "W' = W\<lparr>bottomWall := Some (initializeSpline constant_spline B)\<rparr>"
  have h1: "bottomWall W = Some B"
    by (simp add: W_def B_def example_world_fields)
  have h2: "getYAtX constant_spline B (Fin 1024) = Inr (Fin 480, initializeSpline constant_spline B)"
    unfolding B_def by (rule example_outlet_1024)
  have cw: "canvas_width W = 1024" and c: "soundSpeed W = Fin 343"
    by (simp_all add: W_def example_world_fields)
  have h3: "binary64 0.01 \<le> \<bar>Fin (515099996904783 / 562949953421312)\<bar>"
    by (simp add: binary64_threshold)
  have h4: "\<bar>(100 :: real) / 343\<bar> \<le> 2"
    and h5: "(0.01 :: real) + 1 / 10 ^ 14 \<le> \<bar>1 - (100 / 343) * (100 / 343)\<bar>"
    by simp_all
  have a2: "fl_mul binary64 (fl_mul binary64 (pixelsToMeters binary64 1024 (Fin 480))
                                       (pixelsToMeters binary64 1024 (Fin 480))) (Fin Math_PI)
       = Fin 2 * Fin (4857493573627927 / 562949953421312)"
    by (simp add: example_areas_1024(2))
  note T = calculateVelocity_formula [OF h1 h2, where ?y2.0 = "Fin (373186621437057 / 1099511627776)"
      and ?V1.0 = "Fin 100" and ?x1.0 = "Fin 1004" and ?y1.0 = "Fin 120"]
  have by_guard: "calculateVelocity binary64 constant_spline W (Fin 1004) (Fin 1024) (Fin 120) (Fin (373186621437057 / 1099511627776))
          (Fin 100) = Inr (Fin (6652346350447707 / 70368744177664), W')"
    using T [THEN conjunct1] h3
    by (simp add: cw c example_areas_1024 example_ratio_1024 guard_100 W'_def)
  have by_margin: "calculateVelocity binary64 constant_spline W (Fin 1004) (Fin 1024) (Fin 120) (Fin (373186621437057 / 1099511627776))
          (Fin 100) = Inr (Fin (6652346350447707 / 70368744177664), W')"
    using T [THEN conjunct2, THEN conjunct1, rule_format, of 100 343] h4 h5
    by (simp add: cw c example_areas_1024 example_ratio_1024 guard_100 W'_def)
  have doubled: "\<exists>r. calculateVelocity binary64 constant_spline W (Fin 1004) (Fin 1024) (Fin 120) (Fin (373186621437057 / 1099511627776))
          (Fin 100) = Inr (Fin r, W') \<and> \<bar>r - 94.5\<bar> < 0.1"
  proof -
    have "\<exists>\<alpha> :: real. \<alpha> \<noteq> 0 \<and> Fin (4857493573627927 / 562949953421312) = Fin \<alpha>"
      by (rule exI [of _ "4857493573627927 / 562949953421312"]) simp
    then show ?thesis
      using T [THEN conjunct2, THEN conjunct2, THEN conjunct1]
      by (simp add: cw c example_areas_1024 W'_def)
  qed
  define U where "U = example_world 1000 (Fin 343) (Fin 100)"
  define P where "P = new_Particle U (1 / 2) (1 / 4) (1 / 2)"
  from example_update obtain p' wu' where u: "update constant_spline 0 0 U P = Inr (p', wu')"
    unfolding U_def P_def by blast
  have walls: "topWall U = Some (example_wall 1000 True)"
    "bottomWall U = Some (example_wall 1000 False)" and cwu: "canvas_width U = 1000"
    by (simp_all add: U_def example_world_fields)
  have pp: "pos_x P = Fin 0" "speedX P = Fin 100"
    by (simp_all add: P_def U_def example_particle)
  from T u walls
  have "\<exists>topY tw1 bottomY bw1 w2.
                getYAtX constant_spline (example_wall 1000 True) (pos_x P) = Inr (topY, tw1)
              \<and> getYAtX constant_spline (example_wall 1000 False) (pos_x P) = Inr (bottomY, bw1)
              \<and> calculateVelocity binary64 constant_spline (U\<lparr>topWall := Some tw1, bottomWall := Some bw1\<rparr>)
                   (pos_x P) (pos_x P + metersToPixels (canvas_width U) (Fin 0.1))
                   topY bottomY (speedX P)
                  = Inr (speedX p', w2)"
    by blast
  with u have caller: "\<exists>p' wu' topY tw1 bottomY bw1 w2.
         update constant_spline 0 0 U P = Inr (p', wu')
       \<and> getYAtX constant_spline (example_wall 1000 False) (Fin 0) = Inr (bottomY, bw1)
       \<and> calculateVelocity binary64 constant_spline (U\<lparr>topWall := Some tw1, bottomWall := Some bw1\<rparr>)
            (Fin 0) (Fin 0 + metersToPixels 1000 (Fin 0.1)) topY bottomY (Fin 100)
          = Inr (speedX p', w2)"
    unfolding pp cwu by blast
  show ?thesis
    using h1 [unfolded W_def B_def] h2 [unfolded B_def] guard_100(1) h3 h4 h5 example_areas_1024(1) a2
      by_guard [unfolded W'_def W_def B_def] doubled [unfolded W'_def W_def B_def]
      caller [unfolded U_def P_def]
    by blast
qed

theorem calculateVelocity_formula_counterexample:
  "binary64 345.7157213665586 = Fin (6081895288759983 / 17592186044416)
   \<and> (0.01 :: real) \<le> \<bar>1 - (6081895288759983 / 17592186044416) / 344 * ((6081895288759983 / 17592186044416) / 344)\<bar>
   \<and> getYAtX constant_spline (example_wall 1000 False) (Fin 1000)
       = Inr (Fin 480, initializeSpline constant_spline (example_wall 1000 False))
   \<and> calculateVelocity binary64 constant_spline (example_world 1000 (Fin 344) (Fin 100))
         (Fin 980) (Fin 1000) (Fin 120) (Fin 500) (Fin (6081895288759983 / 17592186044416))
       = Inr (Fin 100, (example_world 1000 (Fin 344) (Fin 100))
                \<lparr>bottomWall := Some (initializeSpline constant_spline (example_wall 1000 False))\<rparr>)
   \<and> fl_mul binary64 (fl_mul binary64 (pixelsToMeters binary64 1000 (Fin 500))
                                       (pixelsToMeters binary64 1000 (Fin 500))) (Fin Math_PI) = Fin (5526748243772219 / 281474976710656)
   \<and> fl_mul binary64 (fl_mul binary64 (pixelsToMeters binary64 1000 (Fin 480))
                                       (pixelsToMeters binary64 1000 (Fin 480))) (Fin Math_PI) = Fin (5093451181460477 / 281474976710656)
   \<and> fl_div binary64 (fl_sub binary64 (Fin (5093451181460477 / 281474976710656)) (Fin (5526748243772219 / 281474976710656))) (Fin (5526748243772219 / 281474976710656)) = Fin (- (5649315372573551 / 72057594037927936))
   \<and> fl_sub binary64 (Fin 1) (fl_mul binary64 (fl_div binary64 (Fin (6081895288759983 / 17592186044416)) (Fin 344))
                                             (fl_div binary64 (Fin (6081895288759983 / 17592186044416)) (Fin 344))) = Fin (- (5629499534213 / 562949953421312))
   \<and> fl_add binary64 (Fin (6081895288759983 / 17592186044416))
        (fl_mul binary64 (fl_div binary64 (fl_mul binary64 (Fin (5649315372573551 / 72057594037927936)) (Fin (6081895288759983 / 17592186044416))) (Fin (- (5629499534213 / 562949953421312)))) (binary64 (1 / 20)))
       = Fin (7395584671132037 / 35184372088832)
   \<and> Fin (7395584671132037 / 35184372088832) \<noteq> Fin 100
   \<and> (200 :: real) < 6081895288759983 / 17592186044416 + 0.05 * (- ((480\<^sup>2 - 500\<^sup>2) / 500\<^sup>2) * (6081895288759983 / 17592186044416)
                                     / (1 - (6081895288759983 / 17592186044416) / 344 * ((6081895288759983 / 17592186044416) / 344)))"
proof -
  have lit: "binary64 345.7157213665586 = Fin (6081895288759983 / 17592186044416)"
    using binary64_eqI [of "8" "1728578606832793 / 5000000000000" 6081895288759983] by simp
  have outside: "(0.01 :: real) \<le> \<bar>1 - (6081895288759983 / 17592186044416) / 344 * ((6081895288759983 / 17592186044416) / 344)\<bar>"
    by simp
  have other: "Fin (7395584671132037 / 35184372088832) \<noteq> Fin 100"
    by simp
  have ideal: "(200 :: real) < 6081895288759983 / 17592186044416 + 0.05 * (- ((480\<^sup>2 - 500\<^sup>2) / 500\<^sup>2) * (6081895288759983 / 17592186044416)
                                     / (1 - (6081895288759983 / 17592186044416) / 344 * ((6081895288759983 / 17592186044416) / 344)))"
    by simp
  show ?thesis
    using lit outside example_outlet near_sonic_outside example_areas_1000 other ideal by blast
qed



section \<open>Subsonic flow in a diverging and in a converging duct\<close>













section \<open>Divisions of the velocity update\<close>




section \<open>Heights outside the span of the control points\<close>

lemma jsnum_le_trans_strict: "Fin l \<le> x \<Longrightarrow> f < l \<Longrightarrow> \<not> x \<le> Fin f"
  by (cases x) auto

text \<open>
  C7, as amended. For every wall with a control point and every position \<open>x\<close>, with the control
  points as \<^verbatim>\<open>getYAtX\<close> reads them (sorted, if the spline had to be initialised): if \<open>x\<close> is at
  or before the first point's coordinate, the result is exactly the first point's height; if
  \<open>x\<close> is at or after the last point's coordinate and not at or before the first point's (as
  it is whenever the two coordinates differ), the result is exactly the last point's height.
  When the first and the last control point share the coordinate \<open>x\<close>, the first test wins and
  the first point's height is returned: the counterexample.
\<close>

theorem getYAtX_clamped:
  fixes s :: Spline and x :: jsnum and ns :: numeric_spline
  defines "s1 \<equiv> (if splineCoeffs s = None then initializeSpline ns s else s)"
  defines "first \<equiv> hd (points s1)" and "final \<equiv> last (points s1)"
  assumes ne: "points s \<noteq> []"
  shows "(x \<le> Fin (px first) \<longrightarrow> getYAtX ns s x = Inr (Fin (py first), s1))
       \<and> (Fin (px final) \<le> x \<and> \<not> x \<le> Fin (px first) \<longrightarrow>
            getYAtX ns s x = Inr (Fin (py final), s1))
       \<and> (Fin (px final) \<le> x \<and> px first < px final \<longrightarrow>
            getYAtX ns s x = Inr (Fin (py final), s1))"
proof -
  have "points s1 \<noteq> []"
    using ne by (auto simp: s1_def points_initializeSpline sort_key_eq_Nil)
  then obtain p0 ps where ps: "points s1 = p0 # ps"
    by (cases "points s1") auto
  have f: "first = p0"
    by (simp add: first_def ps)
  have get: "getYAtX ns s x =
      (if x \<le> Fin (px first) then Inr (Fin (py first), s1)
       else if Fin (px final) \<le> x then Inr (Fin (py final), s1)
       else (case splineCoeffs s1 of None \<Rightarrow> Inl TypeError | Some coeffs \<Rightarrow> Inr (coeffs x, s1)))"
    unfolding getYAtX_def Let_def s1_def [symmetric] final_def [symmetric]
    by (simp add: ps f)
  show ?thesis
    using jsnum_le_trans_strict [of "px final" x "px first"] by (auto simp: get)
qed

theorem getYAtX_clamped_witness:
  "points (example_wall 1000 True) \<noteq> []
   \<and> Fin (- 5) \<le> Fin 0
   \<and> getYAtX constant_spline (example_wall 1000 True) (Fin (- 5))
       = Inr (Fin 120, initializeSpline constant_spline (example_wall 1000 True))
   \<and> Fin 1000 \<le> Fin 2000 \<and> \<not> Fin 2000 \<le> Fin 0
   \<and> getYAtX constant_spline (example_wall 1000 True) (Fin 2000)
       = Inr (Fin 120, initializeSpline constant_spline (example_wall 1000 True))"
proof -
  have ne: "points (example_wall 1000 True) \<noteq> []"
    by (simp add: example_wall_1000)
  have pts: "points (initializeSpline constant_spline (example_wall 1000 True))
               = [\<lparr>px = 0, py = 120\<rparr>, \<lparr>px = 250, py = 140\<rparr>, \<lparr>px = 500, py = 120\<rparr>,
                  \<lparr>px = 750, py = 100\<rparr>, \<lparr>px = 1000, py = 120\<rparr>]"
    and co: "splineCoeffs (example_wall 1000 True) = None"
    by (simp_all add: example_wall_1000 initializeSpline_def Let_def)
  show ?thesis
    using getYAtX_clamped [OF ne, of "Fin (- 5)" constant_spline]
      getYAtX_clamped [OF ne, of "Fin 2000" constant_spline]
    by (simp add: ne pts co)
qed

theorem getYAtX_clamped_counterexample:
  "points stacked_wall = [\<lparr>px = 500, py = 400\<rparr>, \<lparr>px = 500, py = 450\<rparr>, \<lparr>px = 500, py = 480\<rparr>,
                          \<lparr>px = 500, py = 460\<rparr>, \<lparr>px = 500, py = 300\<rparr>]
   \<and> 2 \<le> length (points stacked_wall)
   \<and> Fin (px (last (points stacked_wall))) \<le> Fin 500
   \<and> getYAtX constant_spline stacked_wall (Fin 500) = Inr (Fin 400, stacked_wall)
   \<and> Fin 400 \<noteq> Fin (py (last (points stacked_wall)))"
proof -
  have pts: "points stacked_wall = [\<lparr>px = 500, py = 400\<rparr>, \<lparr>px = 500, py = 450\<rparr>, \<lparr>px = 500, py = 480\<rparr>,
                          \<lparr>px = 500, py = 460\<rparr>, \<lparr>px = 500, py = 300\<rparr>]"
    and co: "splineCoeffs stacked_wall
               = Some (constant_spline [500, 500, 500, 500, 500] [400, 450, 480, 460, 300])"
    by (simp_all add: stacked_wall_def initializeSpline_def Let_def)
  have "getYAtX constant_spline stacked_wall (Fin 500) = Inr (Fin 400, stacked_wall)"
    by (simp add: getYAtX_def pts co Let_def)
  then show ?thesis
    by (simp add: pts)
qed

section \<open>Bucket keys\<close>

lemma roundedX_Fin:
  "D \<noteq> 0 \<Longrightarrow> roundedX (Fin D) (Fin p) = Fin (of_int \<lfloor>p / D + 1 / 2\<rfloor> * D)"
  by (simp add: roundedX_def)

lemma floor_half_cell:
  fixes p D :: real and n :: int
  assumes "0 < D" and "(of_int n - 1 / 2) * D \<le> p" and "p < (of_int n + 1 / 2) * D"
  shows "\<lfloor>p / D + 1 / 2\<rfloor> = n"
proof (rule floor_unique)
  have "of_int n - 1 / 2 \<le> p / D"
    using assms(1,2) by (simp add: pos_le_divide_eq)
  then show "of_int n \<le> p / D + 1 / 2"
    by simp
  have "p / D < of_int n + 1 / 2"
    using assms(1,3) by (simp add: pos_divide_less_eq)
  then show "p / D + 1 / 2 < of_int n + 1"
    by simp
qed

lemma floor_close:
  fixes a b :: real
  assumes "\<bar>a - b\<bar> \<le> 1 / 2"
  shows "\<lfloor>a\<rfloor> = \<lfloor>b\<rfloor> \<or> \<bar>\<lfloor>a\<rfloor> - \<lfloor>b\<rfloor>\<bar> = 1"
proof -
  have "a < b + 1" "b < a + 1"
    using assms by linarith+
  then have "\<lfloor>a\<rfloor> \<le> \<lfloor>b\<rfloor> + 1" "\<lfloor>b\<rfloor> \<le> \<lfloor>a\<rfloor> + 1"
    by linarith+
  then show ?thesis
    by linarith
qed

text \<open>
  C2, as amended. For a positive grouping distance \<open>D\<close>: two positions in the same cell
  \<open>[(n - 1/2) D, (n + 1/2) D)\<close> have the same bucket key \<open>n D\<close>; two positions within \<open>D / 2\<close> of
  each other have the same key or two neighbouring keys, \<open>D\<close> apart. They need not have the
  same key: a cell boundary can lie between them, as in the counterexample.
\<close>

theorem roundedX_grouping:
  fixes p q D :: real
  assumes D: "0 < D"
  shows "(\<forall>n :: int. (of_int n - 1 / 2) * D \<le> p \<and> p < (of_int n + 1 / 2) * D
            \<and> (of_int n - 1 / 2) * D \<le> q \<and> q < (of_int n + 1 / 2) * D
          \<longrightarrow> roundedX (Fin D) (Fin p) = Fin (of_int n * D)
              \<and> roundedX (Fin D) (Fin q) = Fin (of_int n * D))
       \<and> (\<bar>p - q\<bar> \<le> D / 2 \<longrightarrow>
            (\<exists>kp kq. roundedX (Fin D) (Fin p) = Fin kp \<and> roundedX (Fin D) (Fin q) = Fin kq
                   \<and> (kp = kq \<or> \<bar>kp - kq\<bar> = D)))"
proof (intro conjI allI impI)
  fix n :: int
  assume h: "(of_int n - 1 / 2) * D \<le> p \<and> p < (of_int n + 1 / 2) * D
            \<and> (of_int n - 1 / 2) * D \<le> q \<and> q < (of_int n + 1 / 2) * D"
  show "roundedX (Fin D) (Fin p) = Fin (of_int n * D)"
    using D h floor_half_cell [of D n p] by (simp add: roundedX_Fin)
  show "roundedX (Fin D) (Fin q) = Fin (of_int n * D)"
    using D h floor_half_cell [of D n q] by (simp add: roundedX_Fin)
next
  assume close: "\<bar>p - q\<bar> \<le> D / 2"
  define i where "i = \<lfloor>p / D + 1 / 2\<rfloor>"
  define j where "j = \<lfloor>q / D + 1 / 2\<rfloor>"
  have "\<bar>(p / D + 1 / 2) - (q / D + 1 / 2)\<bar> = \<bar>p - q\<bar> / D"
    using D by (simp add: diff_divide_distrib [symmetric])
  also have "\<dots> \<le> 1 / 2"
    using D close by (simp add: pos_divide_le_eq)
  finally have "i = j \<or> \<bar>i - j\<bar> = 1"
    unfolding i_def j_def by (rule floor_close)
  then have "of_int i * D = of_int j * D \<or> \<bar>of_int i * D - of_int j * D\<bar> = D"
  proof
    assume "i = j"
    then show ?thesis by simp
  next
    assume "\<bar>i - j\<bar> = 1"
    then have "\<bar>(of_int i :: real) - of_int j\<bar> = 1"
      by (metis of_int_1 of_int_abs of_int_diff)
    then have "\<bar>(of_int i - of_int j) * D\<bar> = D"
      using D by (simp add: abs_mult)
    then show ?thesis
      by (simp add: left_diff_distrib)
  qed
  moreover have "roundedX (Fin D) (Fin p) = Fin (of_int i * D)"
    and "roundedX (Fin D) (Fin q) = Fin (of_int j * D)"
    using D by (simp_all add: roundedX_Fin i_def j_def)
  ultimately show "\<exists>kp kq. roundedX (Fin D) (Fin p) = Fin kp \<and> roundedX (Fin D) (Fin q) = Fin kq
                   \<and> (kp = kq \<or> \<bar>kp - kq\<bar> = D)"
    by blast
qed

theorem roundedX_grouping_witness:
  "(0 :: real) < 6
   \<and> (of_int 1 - 1 / 2) * 6 \<le> (4 :: real) \<and> (4 :: real) < (of_int 1 + 1 / 2) * 6
   \<and> (of_int 1 - 1 / 2) * 6 \<le> (8 :: real) \<and> (8 :: real) < (of_int 1 + 1 / 2) * 6
   \<and> roundedX (Fin 6) (Fin 4) = Fin 6 \<and> roundedX (Fin 6) (Fin 8) = Fin 6
   \<and> \<bar>2 - 4\<bar> \<le> (6 :: real) / 2
   \<and> (\<exists>kp kq. roundedX (Fin 6) (Fin 2) = Fin kp \<and> roundedX (Fin 6) (Fin 4) = Fin kq
          \<and> (kp = kq \<or> \<bar>kp - kq\<bar> = 6))"
proof -
  have D: "(0 :: real) < 6"
    by simp
  have cell: "(of_int 1 - 1 / 2) * 6 \<le> (4 :: real) \<and> (4 :: real) < (of_int 1 + 1 / 2) * 6
      \<and> (of_int 1 - 1 / 2) * 6 \<le> (8 :: real) \<and> (8 :: real) < (of_int 1 + 1 / 2) * 6"
    by simp
  have close: "\<bar>2 - 4\<bar> \<le> (6 :: real) / 2"
    by simp
  from roundedX_grouping [OF D, of 4 8] cell
  have "roundedX (Fin 6) (Fin 4) = Fin (of_int 1 * 6) \<and> roundedX (Fin 6) (Fin 8) = Fin (of_int 1 * 6)"
    by blast
  moreover from roundedX_grouping [OF D, of 2 4] close
  have "\<exists>kp kq. roundedX (Fin 6) (Fin 2) = Fin kp \<and> roundedX (Fin 6) (Fin 4) = Fin kq
          \<and> (kp = kq \<or> \<bar>kp - kq\<bar> = 6)"
    by blast
  ultimately show ?thesis
    using cell close by simp
qed

theorem roundedX_grouping_counterexample:
  "SHOCK_DISTANCE (example_world 1000 (Fin 343) (Fin 100)) = Fin 6
   \<and> \<bar>Fin 2 - Fin 4\<bar> \<le> SHOCK_DISTANCE (example_world 1000 (Fin 343) (Fin 100)) / Fin 2
   \<and> roundedX (SHOCK_DISTANCE (example_world 1000 (Fin 343) (Fin 100))) (Fin 2) = Fin 0
   \<and> roundedX (SHOCK_DISTANCE (example_world 1000 (Fin 343) (Fin 100))) (Fin 4) = Fin 6
   \<and> Fin 0 \<noteq> Fin 6"
  by (simp add: SHOCK_DISTANCE_def metersToPixels_def PHYSICAL_WIDTH_METERS_def example_world_fields
      roundedX_def minus_jsnum_def)

section \<open>The rolling buffer of a control point\<close>

lemma abs_diff_Fin: "\<bar>Fin a - Fin b\<bar> = Fin \<bar>a - b\<bar>"
  by (simp add: minus_jsnum_def)

lemma closestScan_min:
  assumes "length pre = i" and "ci < i"
    and "d = \<bar>px ((pre @ ps) ! ci) - r\<bar>"
    and "\<forall>p \<in> set pre. d \<le> \<bar>px p - r\<bar>"
  shows "\<exists>ci' d'. closestScan (Fin r) ps i ci (Fin d) = (ci', Fin d')
           \<and> ci' < length (pre @ ps)
           \<and> d' = \<bar>px ((pre @ ps) ! ci') - r\<bar>
           \<and> (\<forall>p \<in> set (pre @ ps). d' \<le> \<bar>px p - r\<bar>)"
  using assms
proof (induction ps arbitrary: pre i ci d)
  case Nil
  then show ?case by simp
next
  case (Cons p ps)
  have split: "pre @ p # ps = (pre @ [p]) @ ps"
    by simp
  show ?case
  proof (cases "\<bar>px p - r\<bar> < d")
    case True
    have "\<exists>ci' d'. closestScan (Fin r) ps (Suc i) i (Fin \<bar>px p - r\<bar>) = (ci', Fin d')
           \<and> ci' < length ((pre @ [p]) @ ps)
           \<and> d' = \<bar>px (((pre @ [p]) @ ps) ! ci') - r\<bar>
           \<and> (\<forall>q \<in> set ((pre @ [p]) @ ps). d' \<le> \<bar>px q - r\<bar>)"
    proof (rule Cons.IH)
      show "length (pre @ [p]) = Suc i" using Cons.prems(1) by simp
      show "i < Suc i" by simp
      show "\<bar>px p - r\<bar> = \<bar>px (((pre @ [p]) @ ps) ! i) - r\<bar>"
        using Cons.prems(1) by (simp add: nth_append)
      show "\<forall>q\<in>set (pre @ [p]). \<bar>px p - r\<bar> \<le> \<bar>px q - r\<bar>"
        using Cons.prems(4) True by auto
    qed
    then show ?thesis
      using True unfolding split by (simp add: abs_diff_Fin Let_def)
  next
    case False
    have "\<exists>ci' d'. closestScan (Fin r) ps (Suc i) ci (Fin d) = (ci', Fin d')
           \<and> ci' < length ((pre @ [p]) @ ps)
           \<and> d' = \<bar>px (((pre @ [p]) @ ps) ! ci') - r\<bar>
           \<and> (\<forall>q \<in> set ((pre @ [p]) @ ps). d' \<le> \<bar>px q - r\<bar>)"
    proof (rule Cons.IH)
      show "length (pre @ [p]) = Suc i" using Cons.prems(1) by simp
      show "ci < Suc i" using Cons.prems(2) by simp
      show "d = \<bar>px (((pre @ [p]) @ ps) ! ci) - r\<bar>"
        using Cons.prems(1,2,3) by (simp add: nth_append)
      show "\<forall>q\<in>set (pre @ [p]). d \<le> \<bar>px q - r\<bar>"
        using Cons.prems(4) False by auto
    qed
    then show ?thesis
      using False unfolding split by (simp add: abs_diff_Fin Let_def)
  qed
qed

lemma closest_is_nearest:
  "\<exists>ci d. closestScan (Fin r) ps 1 0 \<bar>Fin (px p0) - Fin r\<bar> = (ci, Fin d)
          \<and> ci < length (p0 # ps)
          \<and> d = \<bar>px ((p0 # ps) ! ci) - r\<bar>
          \<and> (\<forall>p \<in> set (p0 # ps). d \<le> \<bar>px p - r\<bar>)"
  using closestScan_min [of "[p0]" 1 0 "\<bar>px p0 - r\<bar>" ps r]
  by (simp add: abs_diff_Fin)

lemma keep_last_append:
  "drop (length (drop (length ys - n) ys @ zs) - n) (drop (length ys - n) ys @ zs)
     = drop (length (ys @ zs) - n) (ys @ zs)"
  by (cases "length ys \<le> n") (auto simp: add.commute)

lemma push_shift:
  assumes "length b \<le> 50"
  shows "(if length (b @ [v]) > 50 then tl (b @ [v]) else b @ [v])
           = drop (length (b @ [v]) - 50) (b @ [v])"
proof (cases "length b = 50")
  case True
  then have "b \<noteq> []"
    by auto
  then show ?thesis
    using True by (simp add: drop_Suc)
next
  case False
  then show ?thesis using assms by simp
qed


lemma recordVelocity_step:
  assumes pts: "points s = p0 # ps"
    and cl: "closestScan x ps 1 0 \<bar>Fin (px p0) - x\<bar> = (i, d)"
  shows "recordVelocity s x v =
     (if d < Fin 50 then
        (if i < length (velocityMeasurements s) then
           Inr (s\<lparr>velocityMeasurements := (velocityMeasurements s)
                  [i := (if length (velocityMeasurements s ! i @ [v]) > 50
                         then tl (velocityMeasurements s ! i @ [v])
                         else velocityMeasurements s ! i @ [v])]\<rparr>)
         else Inl TypeError)
      else Inr s)"
  unfolding recordVelocity_def
  by (simp only: pts list.case Let_def cl prod.case)

lemma recordVelocities_buffer:
  assumes pts: "points s = p0 # ps"
    and near: "\<forall>(x, v) \<in> set xvs. \<exists>d. closestScan x ps 1 0 \<bar>Fin (px p0) - x\<bar> = (i, d) \<and> d < Fin 50"
    and i: "i < length (velocityMeasurements s)"
    and len: "length (velocityMeasurements s ! i) \<le> 50"
  shows "\<exists>s'. recordVelocities s xvs = Inr s'
           \<and> velocityMeasurements s' ! i
               = drop (length (velocityMeasurements s ! i @ map snd xvs) - 50)
                   (velocityMeasurements s ! i @ map snd xvs)"
  using assms
proof (induction xvs arbitrary: s)
  case Nil
  then show ?case by simp
next
  case (Cons xv xvs)
  obtain x v where xv: "xv = (x, v)"
    by (cases xv)
  define b where "b = velocityMeasurements s ! i"
  define s1 where "s1 = s\<lparr>velocityMeasurements := (velocityMeasurements s)
                  [i := drop (length (b @ [v]) - 50) (b @ [v])]\<rparr>"
  from Cons.prems(2) xv obtain d where
    d: "closestScan x ps 1 0 \<bar>Fin (px p0) - x\<bar> = (i, d)" "d < Fin 50"
    by auto
  have step: "recordVelocity s x v = Inr s1"
    using recordVelocity_step [OF Cons.prems(1) d(1), of v] d(2) Cons.prems(3)
      push_shift [OF Cons.prems(4), of v]
    by (simp add: s1_def b_def)
  have b1: "velocityMeasurements s1 ! i = drop (length (b @ [v]) - 50) (b @ [v])"
    using Cons.prems(3) by (simp add: s1_def)
  have "\<exists>s'. recordVelocities s1 xvs = Inr s'
           \<and> velocityMeasurements s' ! i
               = drop (length (velocityMeasurements s1 ! i @ map snd xvs) - 50)
                   (velocityMeasurements s1 ! i @ map snd xvs)"
  proof (rule Cons.IH)
    show "points s1 = p0 # ps"
      using Cons.prems(1) by (simp add: s1_def)
    show "\<forall>(x, v)\<in>set xvs. \<exists>d. closestScan x ps 1 0 \<bar>Fin (px p0) - x\<bar> = (i, d) \<and> d < Fin 50"
      using Cons.prems(2) by simp
    show "i < length (velocityMeasurements s1)"
      using Cons.prems(3) by (simp add: s1_def)
    show "length (velocityMeasurements s1 ! i) \<le> 50"
      unfolding b1 by simp
  qed
  then obtain s' where s': "recordVelocities s1 xvs = Inr s'"
    "velocityMeasurements s' ! i
       = drop (length (velocityMeasurements s1 ! i @ map snd xvs) - 50)
           (velocityMeasurements s1 ! i @ map snd xvs)"
    by blast
  have "velocityMeasurements s' ! i
          = drop (length ((b @ [v]) @ map snd xvs) - 50) ((b @ [v]) @ map snd xvs)"
    unfolding s'(2) b1 by (rule keep_last_append)
  then show ?case
    by (simp add: xv step s'(1) b_def)
qed

text \<open>
  C8. \<^verbatim>\<open>recordVelocity\<close> on a wall with control points \<open>p0 # ps\<close>: with \<open>i\<close> and \<open>d\<close> the index and
  the distance that its loop finds, a call that returns changes the wall only when \<open>d < 50\<close>,
  and then it appends the velocity to the buffer of control point \<open>i\<close> (dropping the oldest
  entry when that makes more than 50) and leaves the other buffers alone. For a finite
  position the loop finds a control point at the least distance from it. After 51 samples
  recorded at positions that are all within 50 of the same closest control point \<open>i\<close>, whose
  buffer held at most 50 entries before, the buffer holds exactly the last 50 of them, in
  order.
\<close>

theorem recordVelocity_rolling_buffer:
  fixes s :: Spline
  assumes pts: "points s = p0 # ps"
  shows "(\<forall>x v s' i d. closestScan x ps 1 0 \<bar>Fin (px p0) - x\<bar> = (i, d)
              \<and> recordVelocity s x v = Inr s' \<longrightarrow>
            (if d < Fin 50 then
               velocityMeasurements s' = (velocityMeasurements s)
                 [i := (if length (velocityMeasurements s ! i @ [v]) > 50
                        then tl (velocityMeasurements s ! i @ [v])
                        else velocityMeasurements s ! i @ [v])]
             else s' = s))
       \<and> (\<forall>r. \<exists>i d. closestScan (Fin r) ps 1 0 \<bar>Fin (px p0) - Fin r\<bar> = (i, Fin d)
              \<and> i < length (p0 # ps)
              \<and> d = \<bar>px ((p0 # ps) ! i) - r\<bar>
              \<and> (\<forall>p \<in> set (p0 # ps). d \<le> \<bar>px p - r\<bar>))
       \<and> (\<forall>xvs i. (\<forall>(x, v) \<in> set xvs. \<exists>d. closestScan x ps 1 0 \<bar>Fin (px p0) - x\<bar> = (i, d) \<and> d < Fin 50)
              \<and> i < length (velocityMeasurements s)
              \<and> length (velocityMeasurements s ! i) \<le> 50
              \<and> length xvs = 51 \<longrightarrow>
            (\<exists>s'. recordVelocities s xvs = Inr s'
                 \<and> velocityMeasurements s' ! i = drop 1 (map snd xvs)
                 \<and> length (velocityMeasurements s' ! i) = 50))"
proof (intro conjI allI impI)
  fix x v s' i d
  assume h: "closestScan x ps 1 0 \<bar>Fin (px p0) - x\<bar> = (i, d) \<and> recordVelocity s x v = Inr s'"
  then show "if d < Fin 50 then
               velocityMeasurements s' = (velocityMeasurements s)
                 [i := (if length (velocityMeasurements s ! i @ [v]) > 50
                        then tl (velocityMeasurements s ! i @ [v])
                        else velocityMeasurements s ! i @ [v])]
             else s' = s"
    using recordVelocity_step [OF pts, of x i d v] by (auto split: if_splits)
next
  fix r
  show "\<exists>i d. closestScan (Fin r) ps 1 0 \<bar>Fin (px p0) - Fin r\<bar> = (i, Fin d)
              \<and> i < length (p0 # ps)
              \<and> d = \<bar>px ((p0 # ps) ! i) - r\<bar>
              \<and> (\<forall>p \<in> set (p0 # ps). d \<le> \<bar>px p - r\<bar>)"
    by (rule closest_is_nearest)
next
  fix xvs :: "(jsnum \<times> jsnum) list" and i
  assume h: "(\<forall>(x, v) \<in> set xvs. \<exists>d. closestScan x ps 1 0 \<bar>Fin (px p0) - x\<bar> = (i, d) \<and> d < Fin 50)
              \<and> i < length (velocityMeasurements s)
              \<and> length (velocityMeasurements s ! i) \<le> 50
              \<and> length xvs = 51"
  define b where "b = velocityMeasurements s ! i"
  from h have near: "\<forall>(x, v) \<in> set xvs. \<exists>d. closestScan x ps 1 0 \<bar>Fin (px p0) - x\<bar> = (i, d) \<and> d < Fin 50"
    and i: "i < length (velocityMeasurements s)"
    and len: "length (velocityMeasurements s ! i) \<le> 50"
    and n: "length xvs = 51"
    by blast+
  from recordVelocities_buffer [OF pts near i len]
  obtain s' where s': "recordVelocities s xvs = Inr s'"
    "velocityMeasurements s' ! i = drop (length (b @ map snd xvs) - 50) (b @ map snd xvs)"
    unfolding b_def by blast
  have "drop (length (b @ map snd xvs) - 50) (b @ map snd xvs) = drop 1 (map snd xvs)"
    using len n by (simp add: b_def)
  then have "velocityMeasurements s' ! i = drop 1 (map snd xvs)"
    using s'(2) by simp
  moreover have "length (drop 1 (map snd xvs)) = 50"
    using n by simp
  ultimately show "\<exists>s'. recordVelocities s xvs = Inr s'
                 \<and> velocityMeasurements s' ! i = drop 1 (map snd xvs)
                 \<and> length (velocityMeasurements s' ! i) = 50"
    using s'(1) by simp
qed


theorem recordVelocity_rolling_buffer_witness:
  "points (example_wall 1000 False)
     = [\<lparr>px = 0, py = 480\<rparr>, \<lparr>px = 250, py = 500\<rparr>, \<lparr>px = 500, py = 480\<rparr>,
        \<lparr>px = 750, py = 460\<rparr>, \<lparr>px = 1000, py = 480\<rparr>]
   \<and> closestScan (Fin 10) [\<lparr>px = 250, py = 500\<rparr>, \<lparr>px = 500, py = 480\<rparr>,
        \<lparr>px = 750, py = 460\<rparr>, \<lparr>px = 1000, py = 480\<rparr>] 1 0 \<bar>Fin 0 - Fin 10\<bar> = (0, Fin 10)
   \<and> Fin 10 < Fin 50
   \<and> (\<exists>s'. recordVelocity (example_wall 1000 False) (Fin 10) (Fin 7) = Inr s'
          \<and> velocityMeasurements s' = [[Fin 7], [], [], [], []])
   \<and> length (map (\<lambda>k. (Fin 10, Fin (real k))) [1..<52]) = 51
   \<and> (\<exists>s'. recordVelocities (example_wall 1000 False) (map (\<lambda>k. (Fin 10, Fin (real k))) [1..<52])
            = Inr s'
          \<and> velocityMeasurements s' ! 0 = map (\<lambda>k. Fin (real k)) [2..<52]
          \<and> length (velocityMeasurements s' ! 0) = 50)"
proof -
  define W where "W = example_wall 1000 False"
  define ps where "ps = [\<lparr>px = 250, py = 500\<rparr>, \<lparr>px = 500, py = 480\<rparr>,
        \<lparr>px = 750, py = 460\<rparr>, \<lparr>px = (1000 :: real), py = (480 :: real)\<rparr>]"
  define xvs where "xvs = map (\<lambda>k. (Fin 10, Fin (real k))) [1..<52]"
  have pts: "points W = \<lparr>px = 0, py = 480\<rparr> # ps"
    and vm: "velocityMeasurements W = [[], [], [], [], []]"
    by (simp_all add: W_def ps_def example_wall_1000)
  have cl: "closestScan (Fin 10) ps 1 0 \<bar>Fin (px \<lparr>px = 0, py = 480\<rparr>) - Fin 10\<bar> = (0, Fin 10)"
    by (simp add: ps_def minus_jsnum_def)
  have rv: "recordVelocity W (Fin 10) (Fin 7) = Inr (W\<lparr>velocityMeasurements := [[Fin 7], [], [], [], []]\<rparr>)"
    by (simp add: recordVelocity_def pts vm ps_def minus_jsnum_def)
  note T = recordVelocity_rolling_buffer [OF pts]
  from T cl rv
  have "if Fin 10 < Fin 50 then
          velocityMeasurements (W\<lparr>velocityMeasurements := [[Fin 7], [], [], [], []]\<rparr>)
            = (velocityMeasurements W)
            [0 := (if length (velocityMeasurements W ! 0 @ [Fin 7]) > 50
                   then tl (velocityMeasurements W ! 0 @ [Fin 7])
                   else velocityMeasurements W ! 0 @ [Fin 7])]
        else W\<lparr>velocityMeasurements := [[Fin 7], [], [], [], []]\<rparr> = W"
    by blast
  then have one: "\<exists>s'. recordVelocity W (Fin 10) (Fin 7) = Inr s'
      \<and> velocityMeasurements s' = [[Fin 7], [], [], [], []]"
    using rv by (simp add: vm)
  have near: "\<forall>(x, v) \<in> set xvs. \<exists>d. closestScan x ps 1 0
                  \<bar>Fin (px \<lparr>px = 0, py = 480\<rparr>) - x\<bar> = (0, d) \<and> d < Fin 50"
    using cl by (auto simp: xvs_def)
  have n: "length xvs = 51"
    by (simp add: xvs_def)
  have hyp: "(\<forall>(x, v) \<in> set xvs. \<exists>d. closestScan x ps 1 0
                  \<bar>Fin (px \<lparr>px = 0, py = 480\<rparr>) - x\<bar> = (0, d) \<and> d < Fin 50)
            \<and> 0 < length (velocityMeasurements W)
            \<and> length (velocityMeasurements W ! 0) \<le> 50
            \<and> length xvs = 51"
    using near n by (simp add: vm)
  from T hyp
  have many: "\<exists>s'. recordVelocities W xvs = Inr s'
                 \<and> velocityMeasurements s' ! 0 = drop 1 (map snd xvs)
                 \<and> length (velocityMeasurements s' ! 0) = 50"
    by blast
  have d1: "drop 1 (map snd xvs) = map (\<lambda>k. Fin (real k)) [2..<52]"
    by (simp add: xvs_def drop_map comp_def upt_conv_Cons)
  from many have many': "\<exists>s'. recordVelocities W xvs = Inr s'
                 \<and> velocityMeasurements s' ! 0 = map (\<lambda>k. Fin (real k)) [2..<52]
                 \<and> length (velocityMeasurements s' ! 0) = 50"
    unfolding d1 .
  have c1: "points (example_wall 1000 False)
     = [\<lparr>px = 0, py = 480\<rparr>, \<lparr>px = 250, py = 500\<rparr>, \<lparr>px = 500, py = 480\<rparr>,
        \<lparr>px = 750, py = 460\<rparr>, \<lparr>px = 1000, py = 480\<rparr>]"
    by (simp add: example_wall_1000)
  have c2: "closestScan (Fin 10) [\<lparr>px = 250, py = 500\<rparr>, \<lparr>px = 500, py = 480\<rparr>,
        \<lparr>px = 750, py = 460\<rparr>, \<lparr>px = 1000, py = 480\<rparr>] 1 0 \<bar>Fin 0 - Fin 10\<bar> = (0, Fin 10)"
    by (simp add: minus_jsnum_def)
  have c3: "Fin 10 < Fin 50"
    by simp
  show ?thesis
    using c1 c2 c3 one [unfolded W_def] n [unfolded xvs_def] many' [unfolded W_def xvs_def]
    by blast
qed

section \<open>Shock markers\<close>

lemma drawShocks_strokes:
  assumes "drawShocks ns now sp tw bw = Inr (strokes, tw', bw')"
  shows "map (\<lambda>st. (at_x st, strokeStyle st)) strokes
           = map (\<lambda>(x, transitions). (x, shockStyle now transitions))
               (filter (\<lambda>(x, transitions). superCount transitions \<ge> SHOCK_THRESHOLD
                                          \<or> subCount transitions \<ge> SHOCK_THRESHOLD) sp)"
  using assms
proof (induction sp arbitrary: tw bw strokes)
  case Nil
  then show ?case by simp
next
  case (Cons entry sp)
  obtain x transitions where e: "entry = (x, transitions)"
    by (cases entry)
  show ?case
  proof (cases "superCount transitions \<ge> SHOCK_THRESHOLD \<or> subCount transitions \<ge> SHOCK_THRESHOLD")
    case True
    from Cons.prems True obtain topY tw1 bottomY bw1 rest where
      r: "drawShocks ns now sp tw1 bw1 = Inr (rest, tw', bw')"
        "strokes = \<lparr>at_x = x, from_y = topY, to_y = bottomY,
                     strokeStyle = shockStyle now transitions\<rparr> # rest"
      by (auto simp: e split: sum.splits)
    from Cons.IH [OF r(1)] show ?thesis
      using True by (simp add: e r(2))
  next
    case False
    with Cons.prems have "drawShocks ns now sp tw bw = Inr (strokes, tw', bw')"
      by (simp add: e)
    from Cons.IH [OF this] show ?thesis
      using False by (simp add: e)
  qed
qed

lemma shockStyle_color:
  "\<exists>opacity. shockStyle now transitions =
      (if superCount transitions \<ge> SHOCK_THRESHOLD then RGBA 255 50 50 opacity
       else RGBA 50 50 255 opacity)"
  by (simp add: shockStyle_def Let_def)

lemma animateShocks_strokes:
  assumes "animateShocks ns now w = Inr (strokes, w')"
  shows "map (\<lambda>st. (at_x st, strokeStyle st)) strokes
           = map (\<lambda>(x, transitions). (x, shockStyle now transitions))
               (filter (\<lambda>(x, transitions). superCount transitions \<ge> SHOCK_THRESHOLD
                                          \<or> subCount transitions \<ge> SHOCK_THRESHOLD)
                  (cleanupShockPoints now (shockPoints w)))"
    and "shockPoints w' = cleanupShockPoints now (shockPoints w)"
  using assms drawShocks_strokes
  by (auto simp: animateShocks_def Let_def split: option.splits sum.splits)

text \<open>
  C1, as amended. Every stroke that a frame draws belongs to a bucket that survived the
  clean-up, and its colour is that of a supersonic entry (red) when the bucket holds at least
  \<open>SHOCK_THRESHOLD = 1\<close> supersonic entries, and that of a subsonic entry (blue) otherwise. So
  the colour is the direction with the larger count when the supersonic count is at least the
  subsonic count (a tie is supersonic) and when there is no supersonic entry; a bucket with
  fewer supersonic than subsonic entries, but at least one, is still red: the counterexample.
\<close>

theorem shock_marker_color:
  assumes run: "animateShocks ns now w = Inr (strokes, w')"
    and st: "st \<in> set strokes"
  shows "\<exists>transitions opacity.
           (at_x st, transitions) \<in> set (cleanupShockPoints now (shockPoints w))
         \<and> (superCount transitions \<ge> SHOCK_THRESHOLD \<or> subCount transitions \<ge> SHOCK_THRESHOLD)
         \<and> strokeStyle st = (if superCount transitions \<ge> SHOCK_THRESHOLD then RGBA 255 50 50 opacity
                              else RGBA 50 50 255 opacity)
         \<and> (subCount transitions \<le> superCount transitions \<longrightarrow> strokeStyle st = RGBA 255 50 50 opacity)
         \<and> (superCount transitions = 0 \<longrightarrow> strokeStyle st = RGBA 50 50 255 opacity)"
proof -
  let ?active = "\<lambda>(x, transitions). superCount transitions \<ge> SHOCK_THRESHOLD
                                          \<or> subCount transitions \<ge> SHOCK_THRESHOLD"
  from st have "(at_x st, strokeStyle st) \<in> set (map (\<lambda>st. (at_x st, strokeStyle st)) strokes)"
    by force
  then have "(at_x st, strokeStyle st) \<in> set (map (\<lambda>(x, transitions). (x, shockStyle now transitions))
               (filter ?active (cleanupShockPoints now (shockPoints w))))"
    by (simp only: animateShocks_strokes(1) [OF run])
  then obtain transitions where
    t: "(at_x st, transitions) \<in> set (cleanupShockPoints now (shockPoints w))"
       "superCount transitions \<ge> SHOCK_THRESHOLD \<or> subCount transitions \<ge> SHOCK_THRESHOLD"
       "strokeStyle st = shockStyle now transitions"
    by auto
  from shockStyle_color [of now transitions] obtain opacity where
    c: "shockStyle now transitions =
      (if superCount transitions \<ge> SHOCK_THRESHOLD then RGBA 255 50 50 opacity
       else RGBA 50 50 255 opacity)"
    by blast
  have "subCount transitions \<le> superCount transitions \<longrightarrow> strokeStyle st = RGBA 255 50 50 opacity"
    using t(2,3) c by (auto simp: SHOCK_THRESHOLD_def)
  moreover have "superCount transitions = 0 \<longrightarrow> strokeStyle st = RGBA 50 50 255 opacity"
    using t(3) c by (auto simp: SHOCK_THRESHOLD_def)
  ultimately show ?thesis
    using t c by metis
qed


lemma recordTransition_fields:
  "load_width (recordTransition x m T T' w) = load_width w"
  "topWall (recordTransition x m T T' w) = topWall w"
  "bottomWall (recordTransition x m T T' w) = bottomWall w"
  by (simp_all add: recordTransition_def Let_def)

lemma SHOCK_DISTANCE_300: "load_width w = 300 \<Longrightarrow> SHOCK_DISTANCE w = Fin 6"
  by (simp add: SHOCK_DISTANCE_def metersToPixels_def PHYSICAL_WIDTH_METERS_def)

lemma recordTransition_fresh:
  assumes "SHOCK_DISTANCE w = Fin 6" and "shockPoints w = []" and "T' - T < 300"
    and "roundedX (Fin 6) x = k"
  shows "shockPoints (recordTransition x m T T' w)
           = [(k, [\<lparr>etype = (if m \<ge> Fin 1 then 1 else - 1), timestamp = T\<rparr>])]"
  using assms(3)
  by (simp add: recordTransition_def assms(1,2,4) Map_has_def Map_get_def SHOCK_LIFETIME_def
      SHOCK_WINDOW_def Let_def)

lemma recordTransition_same:
  assumes "SHOCK_DISTANCE w = Fin 6" and "shockPoints w = [(k, ts)]"
    and "roundedX (Fin 6) x = k"
  shows "shockPoints (recordTransition x m T T' w)
           = [(k, (let young = filter (\<lambda>t. T' - timestamp t < 300)
                                (ts @ [\<lparr>etype = (if m \<ge> Fin 1 then 1 else - 1), timestamp = T\<rparr>])
                   in drop (length young - 100) young))]"
  by (simp add: recordTransition_def assms Map_has_def Map_get_def SHOCK_LIFETIME_def
      SHOCK_WINDOW_def Let_def)

lemma roundedX_examples:
  "roundedX (Fin 6) (Fin 1) = Fin 0" "roundedX (Fin 6) (Fin 2) = Fin 0"
  by (simp_all add: roundedX_def)


lemma example_shocks_points:
  "shockPoints example_shocks
     = [(Fin 0, [\<lparr>etype = 1, timestamp = 0\<rparr>, \<lparr>etype = - 1, timestamp = 1\<rparr>,
                  \<lparr>etype = - 1, timestamp = 2\<rparr>])]"
proof -
  define W0 where "W0 = example_world 1000 (Fin 343) (Fin 100)"
  define W1 where "W1 = recordTransition (Fin 1) (Fin 1.1) 0 0 W0"
  define W2 where "W2 = recordTransition (Fin 2) (Fin 0.9) 1 1 W1"
  have d0: "SHOCK_DISTANCE W0 = Fin 6" and s0: "shockPoints W0 = []"
    by (simp_all add: W0_def example_world_fields SHOCK_DISTANCE_300)
  have d1: "SHOCK_DISTANCE W1 = Fin 6" and d2: "SHOCK_DISTANCE W2 = Fin 6"
    by (simp_all add: W1_def W2_def W0_def recordTransition_fields example_world_fields
        SHOCK_DISTANCE_300)
  have s1: "shockPoints W1 = [(Fin 0, [\<lparr>etype = 1, timestamp = 0\<rparr>])]"
    unfolding W1_def by (simp add: recordTransition_fresh [OF d0 s0 _ roundedX_examples(1)])
  have s2: "shockPoints W2 = [(Fin 0, [\<lparr>etype = 1, timestamp = 0\<rparr>, \<lparr>etype = - 1, timestamp = 1\<rparr>])]"
    unfolding W2_def by (simp add: recordTransition_same [OF d1 s1 roundedX_examples(2)])
  have "shockPoints (recordTransition (Fin 1) (Fin 0.9) 2 2 W2)
     = [(Fin 0, [\<lparr>etype = 1, timestamp = 0\<rparr>, \<lparr>etype = - 1, timestamp = 1\<rparr>,
                  \<lparr>etype = - 1, timestamp = 2\<rparr>])]"
    by (simp add: recordTransition_same [OF d2 s2 roundedX_examples(1)])
  then show ?thesis
    by (simp only: example_shocks_def W2_def W1_def W0_def)
qed

lemma example_shocks_walls:
  "topWall example_shocks = Some (example_wall 1000 True)"
  "bottomWall example_shocks = Some (example_wall 1000 False)"
  by (simp_all add: example_shocks_def recordTransition_fields example_world_fields)

lemma example_shocks_cleanup:
  "cleanupShockPoints 3 (shockPoints example_shocks) = shockPoints example_shocks"
  by (simp add: example_shocks_points cleanupShockPoints_def SHOCK_LIFETIME_def)

lemma example_shocks_counts:
  "superCount [\<lparr>etype = 1, timestamp = 0\<rparr>, \<lparr>etype = - 1, timestamp = 1\<rparr>,
               \<lparr>etype = - 1, timestamp = 2\<rparr>] = 1"
  "subCount [\<lparr>etype = 1, timestamp = 0\<rparr>, \<lparr>etype = - 1, timestamp = 1\<rparr>,
             \<lparr>etype = - 1, timestamp = 2\<rparr>] = 2"
  by (simp_all add: superCount_def subCount_def)

lemma example_shocks_frame:
  "map_sum id fst (animateShocks constant_spline 3 example_shocks)
     = Inr [\<lparr>at_x = Fin 0, from_y = Fin 120, to_y = Fin 480,
             strokeStyle = RGBA 255 50 50 (Fin (299 / 300))\<rparr>]"
proof -
  have style: "shockStyle 3 [\<lparr>etype = 1, timestamp = 0\<rparr>, \<lparr>etype = - 1, timestamp = 1\<rparr>,
                  \<lparr>etype = - 1, timestamp = 2\<rparr>] = RGBA 255 50 50 (Fin (299 / 300))"
    by (simp add: shockStyle_def example_shocks_counts SHOCK_THRESHOLD_def latestTime_def
        SHOCK_LIFETIME_def Let_def minus_jsnum_def)
  show ?thesis
    unfolding animateShocks_def example_shocks_cleanup Let_def
    by (simp add: example_shocks_points example_shocks_walls example_shocks_counts
        SHOCK_THRESHOLD_def example_inlet style)
qed

theorem shock_marker_color_witness:
  "\<exists>strokes w' st. animateShocks constant_spline 3 example_shocks = Inr (strokes, w')
     \<and> st \<in> set strokes
     \<and> (\<exists>transitions opacity.
           (at_x st, transitions) \<in> set (cleanupShockPoints 3 (shockPoints example_shocks))
         \<and> strokeStyle st = (if superCount transitions \<ge> SHOCK_THRESHOLD then RGBA 255 50 50 opacity
                              else RGBA 50 50 255 opacity))"
proof -
  define st where "st = \<lparr>at_x = Fin 0, from_y = Fin 120, to_y = Fin 480,
             strokeStyle = RGBA 255 50 50 (Fin (299 / 300))\<rparr>"
  from example_shocks_frame obtain w' where
    run: "animateShocks constant_spline 3 example_shocks = Inr ([st], w')"
    unfolding st_def by (cases "animateShocks constant_spline 3 example_shocks") auto
  have mem: "st \<in> set [st]"
    by simp
  from shock_marker_color [OF run mem] run mem show ?thesis
    by blast
qed

theorem shock_marker_color_counterexample:
  "shockPoints example_shocks
     = [(Fin 0, [\<lparr>etype = 1, timestamp = 0\<rparr>, \<lparr>etype = - 1, timestamp = 1\<rparr>,
                  \<lparr>etype = - 1, timestamp = 2\<rparr>])]
   \<and> cleanupShockPoints 3 (shockPoints example_shocks) = shockPoints example_shocks
   \<and> superCount [\<lparr>etype = 1, timestamp = 0\<rparr>, \<lparr>etype = - 1, timestamp = 1\<rparr>,
                  \<lparr>etype = - 1, timestamp = 2\<rparr>] = 1
   \<and> subCount [\<lparr>etype = 1, timestamp = 0\<rparr>, \<lparr>etype = - 1, timestamp = 1\<rparr>,
                  \<lparr>etype = - 1, timestamp = 2\<rparr>] = 2
   \<and> map_sum id fst (animateShocks constant_spline 3 example_shocks)
       = Inr [\<lparr>at_x = Fin 0, from_y = Fin 120, to_y = Fin 480,
               strokeStyle = RGBA 255 50 50 (Fin (299 / 300))\<rparr>]"
  using example_shocks_points example_shocks_cleanup example_shocks_counts example_shocks_frame
  by simp

section \<open>Expiry of a shock bucket\<close>





















section \<open>The lateral coordinate of a particle\<close>

text \<open>
  C9. The normalized lateral coordinate \<open>normalizedY\<close> that a particle got when it was made is
  never modified afterwards: a tick (\<^verbatim>\<open>update\<close>) that returns leaves it as it was, and so does
  a \<^verbatim>\<open>reset\<close> of a particle that has one. The constructor, through \<^verbatim>\<open>reset\<close>, is what assigns
  it.
\<close>

theorem normalizedY_fixed:
  "(\<forall>p' w'. update ns t_stamp t_now w p = Inr (p', w') \<longrightarrow> normalizedY p' = normalizedY p)
   \<and> (normalizedY p \<noteq> None \<longrightarrow>
        normalizedY (reset w random_size random_y random_opacity p) = normalizedY p)
   \<and> normalizedY (new_Particle w random_size random_y random_opacity) = Some (Fin random_y)"
  by (auto simp: normalizedY_update normalizedY_reset new_Particle_def blank_Particle_def)


theorem normalizedY_fixed_witness:
  "(\<exists>p' w'. update constant_spline 0 0 (example_world 1000 (Fin 343) (Fin 100))
        (new_Particle (example_world 1000 (Fin 343) (Fin 100)) (1 / 2) (1 / 4) (1 / 2))
      = Inr (p', w')
      \<and> normalizedY p' = Some (Fin (1 / 4)))
   \<and> normalizedY (new_Particle (example_world 1000 (Fin 343) (Fin 100)) (1 / 2) (1 / 4) (1 / 2))
       \<noteq> None
   \<and> normalizedY (reset (example_world 1000 (Fin 343) (Fin 100)) (1 / 10) (9 / 10) (3 / 10)
        (new_Particle (example_world 1000 (Fin 343) (Fin 100)) (1 / 2) (1 / 4) (1 / 2)))
       = Some (Fin (1 / 4))"
proof -
  define W where "W = example_world 1000 (Fin 343) (Fin 100)"
  define P where "P = new_Particle W (1 / 2) (1 / 4) (1 / 2)"
  note T = normalizedY_fixed [where ns = constant_spline and t_stamp = 0 and t_now = 0 and w = W
      and p = P and random_size = "1 / 10" and random_y = "9 / 10" and random_opacity = "3 / 10"]
  have n: "normalizedY P = Some (Fin (1 / 4))"
    using normalizedY_fixed [where w = W and random_size = "1 / 2" and random_y = "1 / 4"
        and random_opacity = "1 / 2"]
    by (simp add: P_def)
  from example_update obtain p' w' where u: "update constant_spline 0 0 W P = Inr (p', w')"
    unfolding W_def P_def by blast
  with T have "normalizedY p' = normalizedY P"
    by blast
  with u n have a: "\<exists>p' w'. update constant_spline 0 0 W P = Inr (p', w')
      \<and> normalizedY p' = Some (Fin (1 / 4))"
    by auto
  have b: "normalizedY P \<noteq> None"
    using n by simp
  with T n have c: "normalizedY (reset W (1 / 10) (9 / 10) (3 / 10) P) = Some (Fin (1 / 4))"
    by simp
  show ?thesis
    using a b c unfolding P_def W_def by blast
qed

end
